theory Spec2Isabelle
  imports Main
begin

section \<open>Strings\<close>

text \<open>
  JavaScript strings are modelled as \<open>string\<close>: one \<open>char\<close> per UTF-16 code unit, for
  the code units below 256. \<open>trim\<close> is \<^verbatim>\<open>String.prototype.trim\<close>: it removes
  white space and line terminators from both ends. Of the characters ECMAScript lists,
  those below 256 are TAB, LF, VT, FF, CR, SP and NBSP.
\<close>

definition is_space :: "char \<Rightarrow> bool" where
  "is_space c =
     (c = CHR 0x09 \<or> c = CHR 0x0A \<or> c = CHR 0x0B \<or> c = CHR 0x0C \<or> c = CHR 0x0D \<or>
      c = CHR 0x20 \<or> c = CHR 0xA0)"

definition trim :: "string \<Rightarrow> string" where
  "trim s = rev (dropWhile is_space (rev (dropWhile is_space s)))"

text \<open>
  \<^verbatim>\<open>str.replace('_', ' ')\<close> with a string pattern replaces the first occurrence only.
\<close>

fun replace_first :: "char \<Rightarrow> char \<Rightarrow> string \<Rightarrow> string" where
  "replace_first a b [] = []"
| "replace_first a b (c # cs) = (if c = a then b # cs else c # replace_first a b cs)"

text \<open>
  The decimal text of an integer, as a template literal prints a number. The numbers of
  the model are the integers; ECMAScript's are doubles, which hold an integer exactly up
  to \<open>2^53\<close> and print it in decimal digits below \<open>10^21\<close>. The numbers this program
  prints (timestamps, counts, the user id) lie in that range.
\<close>

definition digit_char :: "nat \<Rightarrow> char" where
  "digit_char d = ''0123456789'' ! d"

fun digits :: "nat \<Rightarrow> string" where
  "digits n = (if n < 10 then [digit_char n] else digits (n div 10) @ [digit_char (n mod 10)])"

declare digits.simps [simp del]

definition Number_toString :: "int \<Rightarrow> string" where
  "Number_toString i = (if i < 0 then CHR ''-'' # digits (nat (- i)) else digits (nat i))"

definition nl :: string where
  "nl = [CHR 0x0A]"

definition spaces :: "nat \<Rightarrow> string" where
  "spaces n = replicate n CHR '' ''"

section \<open>JSON values\<close>

text \<open>
  What \<^verbatim>\<open>JSON.parse\<close> returns and \<^verbatim>\<open>JSON.stringify\<close> takes. An object is the list of
  its own properties in enumeration order. Numbers are integers (the only numbers this
  program stores are \<^verbatim>\<open>Date.now()\<close> timestamps). A JavaScript value that may be
  \<^verbatim>\<open>undefined\<close> is a \<open>json option\<close>, \<open>None\<close> for \<^verbatim>\<open>undefined\<close>.
\<close>

datatype json =
    JNull
  | JBool bool
  | JNum int
  | JStr string
  | JArr "json list"
  | JObj "(string \<times> json) list"

text \<open>Property access \<^verbatim>\<open>v.name\<close> on a value that is neither null nor undefined.\<close>

fun get_prop :: "string \<Rightarrow> json \<Rightarrow> json option" where
  "get_prop name (JObj kvs) = map_of kvs name"
| "get_prop name v = None"

definition join :: "string \<Rightarrow> string list \<Rightarrow> string" where
  "join sep xs = (case xs of [] \<Rightarrow> [] | x # ys \<Rightarrow> x @ concat (map (\<lambda>y. sep @ y) ys))"

text \<open>The abstract operation ToString, as a template literal applies it.\<close>

fun ToString :: "json \<Rightarrow> string" where
  "ToString JNull = ''null''"
| "ToString (JBool b) = (if b then ''true'' else ''false'')"
| "ToString (JNum i) = Number_toString i"
| "ToString (JStr s) = s"
| "ToString (JArr vs) = join '','' (map (\<lambda>v. if v = JNull then [] else ToString v) vs)"
| "ToString (JObj kvs) = ''[object Object]''"

definition ToString_opt :: "json option \<Rightarrow> string" where
  "ToString_opt v = (case v of None \<Rightarrow> ''undefined'' | Some j \<Rightarrow> ToString j)"

text \<open>
  Assigning to \<^verbatim>\<open>textContent\<close> (a nullable DOMString): null and undefined give the
  empty string, every other value its ToString.
\<close>

definition DOMString_of :: "json option \<Rightarrow> string" where
  "DOMString_of v = (case v of None \<Rightarrow> [] | Some JNull \<Rightarrow> [] | Some j \<Rightarrow> ToString j)"

section \<open>The DOM\<close>

text \<open>
  A node is a text node or an element with its \<^verbatim>\<open>className\<close> and children. The
  queries the program uses are class selectors.
\<close>

datatype node = Text string | Element string "node list"

text \<open>\<^verbatim>\<open>classList\<close>: the class attribute split at ASCII white space.\<close>

definition is_html_space :: "char \<Rightarrow> bool" where
  "is_html_space c =
     (c = CHR 0x09 \<or> c = CHR 0x0A \<or> c = CHR 0x0C \<or> c = CHR 0x0D \<or> c = CHR 0x20)"

fun split_ws :: "string \<Rightarrow> string \<Rightarrow> string list" where
  "split_ws acc [] = (if acc = [] then [] else [rev acc])"
| "split_ws acc (c # cs) =
     (if is_html_space c then (if acc = [] then split_ws [] cs else rev acc # split_ws [] cs)
      else split_ws (c # acc) cs)"

definition classList :: "string \<Rightarrow> string list" where
  "classList cn = split_ws [] cn"

fun has_class :: "string \<Rightarrow> node \<Rightarrow> bool" where
  "has_class cl (Text s) = False"
| "has_class cl (Element cn ks) = (cl \<in> set (classList cn))"

text \<open>The elements of a subtree in document order, the root first.\<close>

fun elements :: "node \<Rightarrow> node list" where
  "elements (Text s) = []"
| "elements (Element cn ks) = Element cn ks # concat (map elements ks)"

text \<open>
  \<^verbatim>\<open>parent.querySelectorAll('.cl')\<close> for a parent with children \<open>ks\<close>: the matching
  descendants in document order. \<^verbatim>\<open>el.querySelector('.cl')\<close> is the first of them, or
  null.
\<close>

definition querySelectorAll :: "string \<Rightarrow> node list \<Rightarrow> node list" where
  "querySelectorAll cl ks = filter (has_class cl) (concat (map elements ks))"

fun querySelector :: "string \<Rightarrow> node \<Rightarrow> node option" where
  "querySelector cl (Text s) = None"
| "querySelector cl (Element cn ks) =
     (case querySelectorAll cl ks of [] \<Rightarrow> None | x # xs \<Rightarrow> Some x)"

fun textContent :: "node \<Rightarrow> string" where
  "textContent (Text s) = s"
| "textContent (Element cn ks) = concat (map textContent ks)"

text \<open>
  \<^verbatim>\<open>parent.querySelectorAll('.cl').forEach(el => el.remove())\<close>: every matching
  descendant is detached from its parent.
\<close>

fun remove_all :: "string \<Rightarrow> node \<Rightarrow> node" where
  "remove_all cl (Text s) = Text s"
| "remove_all cl (Element cn ks) =
     Element cn (map (remove_all cl) (filter (\<lambda>k. \<not> has_class cl k) ks))"

definition remove_matching :: "string \<Rightarrow> node list \<Rightarrow> node list" where
  "remove_matching cl ks = map (remove_all cl) (filter (\<lambda>k. \<not> has_class cl k) ks)"

section \<open>The page and the application state\<close>

text \<open>
  One record holds the \<^verbatim>\<open>ChatbotApp\<close> instance, the part of the document it touches and
  the environment it acts on. Effects on the environment are recorded: the sockets opened
  (\<open>io_calls\<close>), what was emitted on a socket, the requests fetched, the console, the
  pending \<^verbatim>\<open>setTimeout\<close> callbacks and the exceptions that reached the event loop.
  \<open>localStorage\<close> is an unbounded map: a write never exceeds a quota. \<open>now\<close> is what
  \<^verbatim>\<open>Date.now()\<close> returns; it does not advance while a handler runs. The elements
  that the constructor looks up by id exist in the document.
\<close>

datatype toast = errorToast | successToast

datatype callback =
    ScrollToBottom
  | EnableSendButton
  | HideToast toast
  | DimConnectionStatus

datatype console_entry = console_log string | console_error string

record outbound =
  message :: string
  session_id :: string
  user_id :: int

record state =
  chatbot :: bool
  socket :: "nat option"
  sessionId :: string
  userId :: int
  isConnected :: bool
  isTyping :: bool
  chatMessages :: "node list"
  messageInput :: string
  inputFocused :: bool
  sendButton_disabled :: bool
  typingIndicator_display :: string
  connectionStatus_innerHTML :: string
  connectionStatus_className :: string
  connectionStatus_opacity :: string
  analyticsModal_display :: string
  analyticsContent :: string
  errorToast_display :: string
  successToast_display :: string
  errorMessage :: string
  successMessage :: string
  localStorage :: "string \<rightharpoonup> string"
  emitted :: "(nat \<times> outbound) list"
  io_calls :: nat
  fetched :: "string list"
  console :: "console_entry list"
  timers :: "(nat \<times> callback) list"
  now :: int
  uncaught :: "string list"

text \<open>
  The built-ins the program calls and does not define. \<open>JSON_parse\<close> gives \<open>None\<close> where
  \<^verbatim>\<open>JSON.parse\<close> throws a SyntaxError. \<open>io_defined\<close> says whether the Socket.IO script
  was loaded, \<open>io_throws\<close> whether its factory \<^verbatim>\<open>io(...)\<close> raises.
\<close>

record platform =
  JSON_parse :: "string \<Rightarrow> json option"
  JSON_stringify :: "json \<Rightarrow> string"
  io_defined :: bool
  io_throws :: bool

section \<open>The methods of ChatbotApp\<close>

definition generateSessionId :: "string \<Rightarrow> state \<Rightarrow> string" where
  \<comment> \<open>\<open>rnd\<close> is \<^verbatim>\<open>Math.random().toString(36).substr(2, 9)\<close>\<close>
  "generateSessionId rnd st = ''session_'' @ rnd @ ''_'' @ Number_toString (now st)"

subsection \<open>Toasts, scrolling, connection status\<close>

fun set_toast_display :: "toast \<Rightarrow> string \<Rightarrow> state \<Rightarrow> state" where
  "set_toast_display errorToast d st = st\<lparr>errorToast_display := d\<rparr>"
| "set_toast_display successToast d st = st\<lparr>successToast_display := d\<rparr>"

definition hideToast :: "toast \<Rightarrow> state \<Rightarrow> state" where
  "hideToast t st = set_toast_display t ''none'' st"

definition showToast :: "toast \<Rightarrow> state \<Rightarrow> state" where
  "showToast t st =
     (let st1 = set_toast_display t ''flex'' st
      in st1\<lparr>timers := timers st1 @ [(5000, HideToast t)]\<rparr>)"

definition showError :: "string \<Rightarrow> state \<Rightarrow> state" where
  "showError m st = showToast errorToast (st\<lparr>errorMessage := m\<rparr>)"

definition showSuccess :: "string \<Rightarrow> state \<Rightarrow> state" where
  "showSuccess m st = showToast successToast (st\<lparr>successMessage := m\<rparr>)"

definition scrollToBottom :: "state \<Rightarrow> state" where
  "scrollToBottom st = st\<lparr>timers := timers st @ [(100, ScrollToBottom)]\<rparr>"

definition updateConnectionStatus :: "string \<Rightarrow> string \<Rightarrow> state \<Rightarrow> state" where
  "updateConnectionStatus m status st =
     (let st1 = st\<lparr>connectionStatus_innerHTML :=
                      nl @ spaces 12 @ ''<i class=\"fas fa-wifi\"></i>'' @
                      nl @ spaces 12 @ ''<span>'' @ m @ ''</span>'' @
                      nl @ spaces 8,
                    connectionStatus_className := ''connection-status '' @ status\<rparr>
      in if status = ''connected''
         then st1\<lparr>timers := timers st1 @ [(3000, DimConnectionStatus)]\<rparr>
         else st1)"

subsection \<open>The typing indicator\<close>

definition showTypingIndicator :: "state \<Rightarrow> state" where
  "showTypingIndicator st =
     (if \<not> isTyping st
      then scrollToBottom (st\<lparr>isTyping := True, typingIndicator_display := ''flex''\<rparr>)
      else st)"

definition hideTypingIndicator :: "state \<Rightarrow> state" where
  "hideTypingIndicator st =
     (if isTyping st
      then st\<lparr>isTyping := False, typingIndicator_display := ''none''\<rparr>
      else st)"

subsection \<open>Saving the history\<close>

definition history_key :: "string \<Rightarrow> string" where
  "history_key sid = ''chat_history_'' @ sid"

text \<open>
  The callback of \<^verbatim>\<open>map\<close> in \<^verbatim>\<open>saveChatHistory\<close>. It throws a TypeError (\<open>None\<close>)
  when the message element has no \<^verbatim>\<open>.message-bubble\<close> descendant.
\<close>

definition message_entry :: "int \<Rightarrow> node \<Rightarrow> json option" where
  "message_entry t msg =
     (case querySelector ''message-bubble'' msg of
        None \<Rightarrow> None
      | Some bubble \<Rightarrow>
          Some (JObj [(''sender'', JStr (if has_class ''user'' msg then ''user'' else ''bot'')),
                      (''content'', JStr (textContent bubble)),
                      (''timestamp'', JNum t)]))"

definition saveChatHistory :: "platform \<Rightarrow> state \<Rightarrow> state" where
  "saveChatHistory P st =
     (case those (map (message_entry (now st)) (querySelectorAll ''message'' (chatMessages st))) of
        None \<Rightarrow> st\<lparr>console := console st @ [console_error ''Failed to save chat history:'']\<rparr>
      | Some messages \<Rightarrow>
          st\<lparr>localStorage :=
               (localStorage st)(history_key (sessionId st) \<mapsto> JSON_stringify P (JArr messages))\<rparr>)"

subsection \<open>Adding a message\<close>

text \<open>
  The third argument of \<^verbatim>\<open>addMessage\<close>. \<open>intent\<close> is \<open>None\<close> when the property is
  undefined, as in the default \<^verbatim>\<open>{}\<close>. \<open>confidence_pct\<close> is the text of
  \<^verbatim>\<open>Math.round(metadata.confidence * 100)\<close>, a floating-point computation that is taken
  as given. Both are written into the element through \<^verbatim>\<open>innerHTML\<close>; the model
  takes them to be plain text (\<open>plain_metadata\<close>), which the HTML parser leaves as it
  is.
\<close>

record metadata =
  intent :: "string option"
  confidence_pct :: string

definition plain_text :: "string \<Rightarrow> bool" where
  "plain_text s =
     list_all (\<lambda>c. c \<noteq> CHR ''<'' \<and> c \<noteq> CHR ''&'' \<and> c \<noteq> CHR 0x0D \<and> c \<noteq> CHR 0x00) s"

definition plain_metadata :: "metadata \<Rightarrow> bool" where
  "plain_metadata md =
     ((case intent md of None \<Rightarrow> True | Some i \<Rightarrow> plain_text i) \<and> plain_text (confidence_pct md))"

definition no_metadata :: metadata where
  "no_metadata = \<lparr>intent = None, confidence_pct = ''NaN''\<rparr>"

definition truthy :: "string option \<Rightarrow> bool" where
  "truthy v = (case v of None \<Rightarrow> False | Some s \<Rightarrow> s \<noteq> [])"

definition text_nodes :: "string \<Rightarrow> node list" where
  "text_nodes s = (if s = [] then [] else [Text s])"

definition metaDiv :: "metadata \<Rightarrow> node" where
  "metaDiv md =
     Element ''message-metadata''
       [Text (nl @ spaces 16),
        Element []
          [Text (nl @ spaces 20 @ ''Intent: '' @ ToString_opt (map_option JStr (intent md)) @
                 '' ('' @ confidence_pct md @ ''% confidence)'' @ nl @ spaces 16)],
        Text (nl @ spaces 12)]"

definition messageDiv :: "json option \<Rightarrow> json option \<Rightarrow> metadata \<Rightarrow> node" where
  "messageDiv content sender md =
     Element (''message '' @ ToString_opt sender)
       [Element (ToString_opt sender @ ''-avatar'')
          [Element (if sender = Some (JStr ''bot'') then ''fas fa-robot'' else ''fas fa-user'') []],
        Element ''message-bubble''
          (text_nodes (DOMString_of content) @
           (if sender = Some (JStr ''bot'') \<and> truthy (intent md) then [metaDiv md] else []))]"

definition addMessage :: "platform \<Rightarrow> json option \<Rightarrow> json option \<Rightarrow> metadata \<Rightarrow> state \<Rightarrow> state" where
  "addMessage P content sender md st =
     saveChatHistory P
       (scrollToBottom (st\<lparr>chatMessages := chatMessages st @ [messageDiv content sender md]\<rparr>))"

subsection \<open>Sending and receiving\<close>

text \<open>
  \<^verbatim>\<open>this.socket.emit\<close> throws a TypeError when \<^verbatim>\<open>this.socket\<close> is still null; the
  exception leaves \<^verbatim>\<open>sendMessage\<close> and reaches the event loop, so the statements after
  it do not run.
\<close>

definition sendMessage :: "platform \<Rightarrow> state \<Rightarrow> state" where
  "sendMessage P st =
     (let m = trim (messageInput st)
      in if m = [] then showError ''Please enter a message'' st
         else if \<not> isConnected st then showError ''Not connected to server. Please wait...'' st
         else
           (let st1 = addMessage P (Some (JStr m)) (Some (JStr ''user'')) no_metadata
                        (st\<lparr>messageInput := []\<rparr>)
            in case socket st1 of
                 None \<Rightarrow> st1\<lparr>uncaught := uncaught st1 @ [''TypeError'']\<rparr>
               | Some k \<Rightarrow>
                   st1\<lparr>emitted := emitted st1 @
                          [(k, \<lparr>message = m, session_id = sessionId st1, user_id = userId st1\<rparr>)],
                        sendButton_disabled := True,
                        timers := timers st1 @ [(2000, EnableSendButton)]\<rparr>))"

text \<open>
  The payload of an inbound \<^verbatim>\<open>message\<close> event: the metadata fields and the response
  text (\<open>None\<close> when absent). \<^verbatim>\<open>entities\<close> and \<^verbatim>\<open>sentiment\<close> are passed on and never
  read.
\<close>

record bot_data = metadata +
  bot_response :: "string option"

definition handleBotResponse :: "platform \<Rightarrow> bot_data \<Rightarrow> state \<Rightarrow> state" where
  "handleBotResponse P data st =
     (let st1 = hideTypingIndicator st;
          st2 = (if truthy (bot_response data)
                 then addMessage P (map_option JStr (bot_response data)) (Some (JStr ''bot''))
                        \<lparr>intent = intent data, confidence_pct = confidence_pct data\<rparr> st1
                 else st1)
      in st2\<lparr>sendButton_disabled := False\<rparr>)"

subsection \<open>The socket\<close>

text \<open>
  \<^verbatim>\<open>initializeSocket\<close> calls \<^verbatim>\<open>io(...)\<close>: the one place where the client opens a
  connection. The new socket is numbered by the calls made before it. The handlers it
  registers are the functions \<open>on_connect\<close> to \<open>on_error\<close>.
\<close>

definition initializeSocket :: "platform \<Rightarrow> state \<Rightarrow> state" where
  "initializeSocket P st =
     (let st1 = st\<lparr>io_calls := io_calls st + 1\<rparr>
      in if io_throws P
         then showError ''Failed to initialize chat connection''
                (st1\<lparr>console := console st1 @ [console_error ''Socket initialization error:'']\<rparr>)
         else st1\<lparr>socket := Some (io_calls st)\<rparr>)"

definition on_connect :: "state \<Rightarrow> state" where
  "on_connect st =
     (let st1 = updateConnectionStatus ''Connected'' ''connected'' (st\<lparr>isConnected := True\<rparr>)
      in st1\<lparr>console := console st1 @ [console_log ''Connected to chatbot server'']\<rparr>)"

definition on_disconnect :: "state \<Rightarrow> state" where
  "on_disconnect st =
     (let st1 = updateConnectionStatus ''Disconnected'' ''disconnected'' (st\<lparr>isConnected := False\<rparr>)
      in st1\<lparr>console := console st1 @ [console_log ''Disconnected from chatbot server'']\<rparr>)"

definition on_connect_error :: "state \<Rightarrow> state" where
  "on_connect_error st =
     (let st1 = updateConnectionStatus ''Connection Error'' ''disconnected''
                  (st\<lparr>isConnected := False\<rparr>)
      in showError ''Failed to connect to chatbot server''
           (st1\<lparr>console := console st1 @ [console_error ''Connection error:'']\<rparr>))"

definition on_message :: "platform \<Rightarrow> bot_data \<Rightarrow> state \<Rightarrow> state" where
  "on_message P data st = handleBotResponse P data st"

definition on_typing :: "bool \<Rightarrow> state \<Rightarrow> state" where
  "on_typing typing st = (if typing then showTypingIndicator st else hideTypingIndicator st)"

definition on_error :: "string option \<Rightarrow> state \<Rightarrow> state" where
  "on_error m st =
     hideTypingIndicator (showError (if truthy m then the m else ''An error occurred'') st)"

subsection \<open>Clearing the chat\<close>

text \<open>\<open>confirmed\<close> is the answer of the \<^verbatim>\<open>confirm\<close> dialog.\<close>

definition clearChat :: "bool \<Rightarrow> state \<Rightarrow> state" where
  "clearChat confirmed st =
     (if confirmed
      then showSuccess ''Chat history cleared''
             (st\<lparr>chatMessages := remove_matching ''message'' (chatMessages st),
                 localStorage := (localStorage st)(history_key (sessionId st) := None)\<rparr>)
      else st)"

subsection \<open>Analytics\<close>

text \<open>
  The body of the analytics response. A number that may be missing is an \<open>int option\<close>;
  \<open>average_confidence_pct\<close> is the text of
  \<^verbatim>\<open>Math.round((data.average_confidence || 0) * 100)\<close>, taken as given.
  \<open>intent_distribution\<close> is the object's property list in enumeration order, which
  \<^verbatim>\<open>Object.entries\<close> returns.
\<close>

record analytics =
  total_conversations :: "int option"
  total_messages :: "int option"
  average_confidence_pct :: string
  intent_distribution :: "(string \<times> int) list option"
  error :: "string option"

definition or_zero :: "int option \<Rightarrow> string" where
  "or_zero v = Number_toString (case v of None \<Rightarrow> 0 | Some n \<Rightarrow> n)"

definition intent_item :: "string \<times> int \<Rightarrow> string" where
  "intent_item e =
     nl @ spaces 16 @ ''<li class=\"intent-item\">'' @
     nl @ spaces 20 @ ''<span class=\"intent-name\">'' @
       replace_first CHR ''_'' CHR '' '' (fst e) @ ''</span>'' @
     nl @ spaces 20 @ ''<span class=\"intent-count\">'' @ Number_toString (snd e) @ ''</span>'' @
     nl @ spaces 16 @ ''</li>'' @
     nl @ spaces 12"

definition intent_rows :: "analytics \<Rightarrow> string list" where
  "intent_rows data =
     map intent_item (case intent_distribution data of None \<Rightarrow> [] | Some d \<Rightarrow> d)"

definition analytics_card :: "string \<Rightarrow> string \<Rightarrow> string" where
  "analytics_card title v =
     nl @ spaces 16 @ ''<div class=\"analytics-card\">'' @
     nl @ spaces 20 @ ''<h3>'' @ title @ ''</h3>'' @
     nl @ spaces 20 @ ''<p class=\"value\">'' @ v @ ''</p>'' @
     nl @ spaces 16 @ ''</div>''"

definition renderAnalytics :: "analytics \<Rightarrow> state \<Rightarrow> state" where
  "renderAnalytics data st =
     (let intentItems = concat (intent_rows data)
      in st\<lparr>analyticsContent :=
           nl @ spaces 12 @ ''<div class=\"analytics-grid\">'' @
           analytics_card ''Total Conversations'' (or_zero (total_conversations data)) @
           analytics_card ''Total Messages'' (or_zero (total_messages data)) @
           analytics_card ''Avg Confidence'' (average_confidence_pct data @ ''%'') @
           nl @ spaces 12 @ ''</div>'' @
           nl @ spaces 12 @
           nl @ spaces 12 @
             ''<h3 style=\"margin-bottom: 1rem; color: #1e293b;\">Intent Distribution</h3>'' @
           nl @ spaces 12 @
             (if intentItems \<noteq> []
              then ''<ul class=\"intent-list\">'' @ intentItems @ ''</ul>''
              else ''<p>No intent data available</p>'') @
           nl @ spaces 8\<rparr>)"

text \<open>
  \<^verbatim>\<open>showAnalytics\<close> is asynchronous. Its first part runs up to the \<^verbatim>\<open>fetch\<close>; the rest
  runs when the request has settled: with a response and its parsed body, or with the
  message of the error that \<^verbatim>\<open>fetch\<close> or \<^verbatim>\<open>response.json()\<close> raised.
\<close>

datatype fetch_result = Rejected string | Response bool analytics

definition showAnalytics :: "state \<Rightarrow> state" where
  "showAnalytics st =
     st\<lparr>analyticsModal_display := ''flex'',
        analyticsContent :=
          nl @ spaces 12 @ ''<div class=\"loading\">'' @
          nl @ spaces 16 @ ''<i class=\"fas fa-spinner fa-spin\"></i>'' @
          nl @ spaces 16 @ ''Loading analytics...'' @
          nl @ spaces 12 @ ''</div>'' @
          nl @ spaces 8,
        fetched := fetched st @ [''/api/analytics?user_id='' @ Number_toString (userId st)]\<rparr>"

definition analytics_failed :: "string \<Rightarrow> state \<Rightarrow> state" where
  "analytics_failed m st =
     st\<lparr>console := console st @ [console_error ''Analytics error:''],
        analyticsContent :=
          nl @ spaces 16 @ ''<div class=\"error\">'' @
          nl @ spaces 20 @ ''<i class=\"fas fa-exclamation-triangle\"></i>'' @
          nl @ spaces 20 @ ''Failed to load analytics: '' @ m @
          nl @ spaces 16 @ ''</div>'' @
          nl @ spaces 12\<rparr>"

definition showAnalytics_settled :: "fetch_result \<Rightarrow> state \<Rightarrow> state" where
  "showAnalytics_settled r st =
     (case r of
        Rejected m \<Rightarrow> analytics_failed m st
      | Response ok data \<Rightarrow>
          if ok then renderAnalytics data st
          else analytics_failed
                 (if truthy (error data) then the (error data) else ''Failed to load analytics'') st)"

definition hideAnalytics :: "state \<Rightarrow> state" where
  "hideAnalytics st = st\<lparr>analyticsModal_display := ''none''\<rparr>"

subsection \<open>Loading the history\<close>

text \<open>
  The loop \<^verbatim>\<open>messages.forEach(...)\<close> of \<^verbatim>\<open>loadChatHistory\<close>. Reading a property of a
  null element throws a TypeError, which ends the loop and is caught by the method.
\<close>

definition load_failed :: "state \<Rightarrow> state" where
  "load_failed st = st\<lparr>console := console st @ [console_error ''Failed to load chat history:'']\<rparr>"

fun forEach_load :: "platform \<Rightarrow> json list \<Rightarrow> state \<Rightarrow> state" where
  "forEach_load P [] st = st"
| "forEach_load P (msg # rest) st =
     (if msg = JNull then load_failed st
      else if get_prop ''sender'' msg \<noteq> Some (JStr ''welcome'')
      then forEach_load P rest
             (addMessage P (get_prop ''content'' msg) (get_prop ''sender'' msg) no_metadata st)
      else forEach_load P rest st)"

text \<open>
  A missing slot (\<^verbatim>\<open>getItem\<close> returns null) and an empty string are falsy. A parsed value
  that is not an array has no \<^verbatim>\<open>forEach\<close> method: the call throws a TypeError.
\<close>

definition loadChatHistory :: "platform \<Rightarrow> state \<Rightarrow> state" where
  "loadChatHistory P st =
     (case localStorage st (history_key (sessionId st)) of
        None \<Rightarrow> st
      | Some history \<Rightarrow>
          if history = [] then st
          else (case JSON_parse P history of
                  None \<Rightarrow> load_failed st
                | Some (JArr messages) \<Rightarrow> forEach_load P messages st
                | Some other \<Rightarrow> load_failed st))"

subsection \<open>Construction\<close>

definition init :: "platform \<Rightarrow> state \<Rightarrow> state" where
  \<comment> \<open>\<^verbatim>\<open>bindEvents\<close> registers the handlers of \<open>handle\<close> below and changes no state\<close>
  "init P st = loadChatHistory P (initializeSocket P st)"

definition new_ChatbotApp :: "platform \<Rightarrow> string \<Rightarrow> state \<Rightarrow> state" where
  "new_ChatbotApp P rnd st =
     init P (st\<lparr>socket := None, sessionId := generateSessionId rnd st, userId := 1,
                isConnected := False, isTyping := False\<rparr>)"

section \<open>The page\<close>

definition DOMContentLoaded :: "platform \<Rightarrow> string \<Rightarrow> state \<Rightarrow> state" where
  "DOMContentLoaded P rnd st =
     (if \<not> io_defined P
      then st\<lparr>console := console st @
                  [console_error ''Socket.IO not loaded. Falling back to REST API.'']\<rparr>
      else (let st1 = (new_ChatbotApp P rnd st)\<lparr>chatbot := True\<rparr>
            in st1\<lparr>console := console st1 @
                   [console_log ''ProductivityBot initialized successfully!'',
                    console_log ''Tip: Use Ctrl+K (Cmd+K on Mac) to focus the input field'',
                    console_log ''Tip: Press Escape to close modals'']\<rparr>))"

definition visibilitychange :: "platform \<Rightarrow> bool \<Rightarrow> state \<Rightarrow> state" where
  "visibilitychange P hidden st =
     (if chatbot st
      then (if hidden
            then st\<lparr>console := console st @ [console_log ''Page hidden - maintaining connection'']\<rparr>
            else (let st1 = st\<lparr>console := console st @
                                 [console_log ''Page visible - checking connection'']\<rparr>
                  in if \<not> isConnected st1 then initializeSocket P st1 else st1))
      else st)"

definition online :: "platform \<Rightarrow> state \<Rightarrow> state" where
  "online P st =
     (if chatbot st \<and> \<not> isConnected st
      then initializeSocket P
             (st\<lparr>console := console st @ [console_log ''Back online - reconnecting...'']\<rparr>)
      else st)"

definition offline :: "state \<Rightarrow> state" where
  "offline st =
     st\<lparr>console := console st @
          [console_log ''Gone offline - connection will be restored when back online'']\<rparr>"

section \<open>Events\<close>

text \<open>
  Everything that runs after the page has loaded is a handler the program registered: on
  a socket, on an element (\<^verbatim>\<open>bindEvents\<close>), on the document or the window, as a timer
  or as the continuation of the analytics request. The handlers of the sockets and of
  \<^verbatim>\<open>bindEvents\<close> exist once the application has been constructed. A close button lies
  inside the toast it closes. Two events are the environment's: \<open>Input\<close> is the user
  editing the message field, \<open>Clock\<close> the time passing.
\<close>

datatype event =
    Socket_connect
  | Socket_disconnect
  | Socket_connect_error
  | Socket_message bot_data
  | Socket_typing bool
  | Socket_error "string option"
  | Click_sendButton
  | Keypress string bool
  | Focus_input
  | Blur_input
  | Click_chip "string option"
  | Click_clearChat bool
  | Click_showAnalytics
  | Fetch_settled fetch_result
  | Click_closeAnalytics
  | Click_modal bool
  | Click_closeToast toast
  | Keydown string bool bool
  | Timeout nat
  | Visibilitychange bool
  | Online
  | Offline
  | Input string
  | Clock int

fun run_callback :: "callback \<Rightarrow> state \<Rightarrow> state" where
  "run_callback ScrollToBottom st = st"
| "run_callback EnableSendButton st = st\<lparr>sendButton_disabled := False\<rparr>"
| "run_callback (HideToast t) st = hideToast t st"
| "run_callback DimConnectionStatus st = st\<lparr>connectionStatus_opacity := ''0.7''\<rparr>"

definition fire :: "nat \<Rightarrow> state \<Rightarrow> state" where
  "fire k st =
     (if k < length (timers st)
      then run_callback (snd (timers st ! k))
             (st\<lparr>timers := take k (timers st) @ drop (Suc k) (timers st)\<rparr>)
      else st)"

fun bound_handler :: "platform \<Rightarrow> event \<Rightarrow> state \<Rightarrow> state" where
  "bound_handler P Socket_connect st = on_connect st"
| "bound_handler P Socket_disconnect st = on_disconnect st"
| "bound_handler P Socket_connect_error st = on_connect_error st"
| "bound_handler P (Socket_message data) st = on_message P data st"
| "bound_handler P (Socket_typing typing) st = on_typing typing st"
| "bound_handler P (Socket_error m) st = on_error m st"
| "bound_handler P Click_sendButton st = sendMessage P st"
| "bound_handler P (Keypress key shiftKey) st =
     (if key = ''Enter'' \<and> \<not> shiftKey then sendMessage P st else st)"
| "bound_handler P Focus_input st = st\<lparr>inputFocused := True\<rparr>"
| "bound_handler P Blur_input st = st\<lparr>inputFocused := False\<rparr>"
| "bound_handler P (Click_chip m) st =
     sendMessage P (st\<lparr>messageInput := (case m of None \<Rightarrow> [] | Some v \<Rightarrow> v)\<rparr>)"
| "bound_handler P (Click_clearChat confirmed) st = clearChat confirmed st"
| "bound_handler P Click_showAnalytics st = showAnalytics st"
| "bound_handler P (Fetch_settled r) st = showAnalytics_settled r st"
| "bound_handler P Click_closeAnalytics st = hideAnalytics st"
| "bound_handler P (Click_modal on_backdrop) st = (if on_backdrop then hideAnalytics st else st)"
| "bound_handler P (Click_closeToast t) st = hideToast t st"
| "bound_handler P (Keydown key ctrlKey metaKey) st =
     (let st1 = (if key = ''Escape'' then hideAnalytics st else st)
      in if (ctrlKey \<or> metaKey) \<and> key = ''k'' then st1\<lparr>inputFocused := True\<rparr> else st1)"
| "bound_handler P e st = st"

fun handle :: "platform \<Rightarrow> event \<Rightarrow> state \<Rightarrow> state" where
  "handle P (Visibilitychange hidden) st = visibilitychange P hidden st"
| "handle P Online st = online P st"
| "handle P Offline st = offline st"
| "handle P (Timeout k) st = fire k st"
| "handle P (Input v) st = st\<lparr>messageInput := v\<rparr>"
| "handle P (Clock t) st = st\<lparr>now := t\<rparr>"
| "handle P e st = (if chatbot st then bound_handler P e st else st)"

definition run :: "platform \<Rightarrow> event list \<Rightarrow> state \<Rightarrow> state" where
  "run P es st = foldl (\<lambda>s e. handle P e s) st es"

section \<open>A browser to run the program on\<close>

text \<open>
  The theorems below hold for every platform. To run the program on concrete inputs, this
  section gives one: \<^verbatim>\<open>JSON.stringify\<close> and \<^verbatim>\<open>JSON.parse\<close> of ECMAScript, for the
  values of type \<open>json\<close>. The parser refuses a number with a fraction or an exponent and
  a \<^verbatim>\<open>\u\<close> escape above 255, which have no value of that type, and it reads every
  integer exactly, also above \<open>2^53\<close>. It serves as the instance on which the program is
  run; no property of the program is stated for it alone.
\<close>

definition hex_char :: "nat \<Rightarrow> char" where
  "hex_char d = ''0123456789abcdef'' ! d"

definition escape_char :: "char \<Rightarrow> string" where
  "escape_char c =
     (if c = CHR 0x22 then [CHR 0x5C, CHR 0x22]
      else if c = CHR 0x5C then [CHR 0x5C, CHR 0x5C]
      else if c = CHR 0x08 then [CHR 0x5C, CHR ''b'']
      else if c = CHR 0x0C then [CHR 0x5C, CHR ''f'']
      else if c = CHR 0x0A then [CHR 0x5C, CHR ''n'']
      else if c = CHR 0x0D then [CHR 0x5C, CHR ''r'']
      else if c = CHR 0x09 then [CHR 0x5C, CHR ''t'']
      else if of_char c < (32::nat)
      then [CHR 0x5C, CHR ''u'', CHR ''0'', CHR ''0'',
            hex_char (of_char c div 16), hex_char (of_char c mod 16)]
      else [c])"

definition quote :: "string \<Rightarrow> string" where
  "quote s = CHR 0x22 # concat (map escape_char s) @ [CHR 0x22]"

fun stringify :: "json \<Rightarrow> string" where
  "stringify JNull = ''null''"
| "stringify (JBool b) = (if b then ''true'' else ''false'')"
| "stringify (JNum i) = Number_toString i"
| "stringify (JStr s) = quote s"
| "stringify (JArr vs) = ''['' @ join '','' (map stringify vs) @ '']''"
| "stringify (JObj kvs) =
     ''{'' @ join '','' (map (\<lambda>(k, v). quote k @ '':'' @ stringify v) kvs) @ ''}''"

definition is_json_space :: "char \<Rightarrow> bool" where
  "is_json_space c = (c = CHR 0x20 \<or> c = CHR 0x09 \<or> c = CHR 0x0A \<or> c = CHR 0x0D)"

definition skip_ws :: "string \<Rightarrow> string" where
  "skip_ws s = dropWhile is_json_space s"

definition starts_with :: "string \<Rightarrow> string \<Rightarrow> bool" where
  "starts_with p s = (take (length p) s = p)"

definition hex_val :: "char \<Rightarrow> nat option" where
  "hex_val c =
     (let n = (of_char c :: nat)
      in if 48 \<le> n \<and> n \<le> 57 then Some (n - 48)
         else if 97 \<le> n \<and> n \<le> 102 then Some (n - 87)
         else if 65 \<le> n \<and> n \<le> 70 then Some (n - 55)
         else None)"

definition unescape :: "char \<Rightarrow> char option" where
  "unescape e =
     (if e = CHR 0x22 \<or> e = CHR 0x5C \<or> e = CHR ''/'' then Some e
      else if e = CHR ''b'' then Some (CHR 0x08)
      else if e = CHR ''f'' then Some (CHR 0x0C)
      else if e = CHR ''n'' then Some (CHR 0x0A)
      else if e = CHR ''r'' then Some (CHR 0x0D)
      else if e = CHR ''t'' then Some (CHR 0x09)
      else None)"

definition code_unit :: "char \<Rightarrow> char \<Rightarrow> char \<Rightarrow> char \<Rightarrow> char option" where
  "code_unit a b c d =
     (case (hex_val a, hex_val b, hex_val c, hex_val d) of
        (Some h3, Some h2, Some h1, Some h0) \<Rightarrow>
          if h3 = 0 \<and> h2 = 0 then Some (char_of (16 * h1 + h0)) else None
      | other \<Rightarrow> None)"

definition cons_char :: "char \<Rightarrow> (string \<times> string) option \<Rightarrow> (string \<times> string) option" where
  "cons_char c r = (case r of None \<Rightarrow> None | Some (s, rest) \<Rightarrow> Some (c # s, rest))"

text \<open>The characters of a string literal after its opening quote, and what follows it.\<close>

fun parse_string :: "string \<Rightarrow> (string \<times> string) option" where
  "parse_string [] = None"
| "parse_string (c # cs) =
     (if c = CHR 0x22 then Some ([], cs)
      else if c = CHR 0x5C then
        (case cs of
           [] \<Rightarrow> None
         | e # r \<Rightarrow>
             if e = CHR ''u'' then
               (case r of
                  a # b # x # y # r' \<Rightarrow>
                    (case code_unit a b x y of
                       None \<Rightarrow> None
                     | Some u \<Rightarrow> cons_char u (parse_string r'))
                | other \<Rightarrow> None)
             else (case unescape e of
                     None \<Rightarrow> None
                   | Some u \<Rightarrow> cons_char u (parse_string r)))
      else if of_char c < (32::nat) then None
      else cons_char c (parse_string cs))"

definition is_digit :: "char \<Rightarrow> bool" where
  "is_digit c = (48 \<le> (of_char c :: nat) \<and> (of_char c :: nat) \<le> 57)"

definition nat_of_digits :: "string \<Rightarrow> nat" where
  "nat_of_digits ds = foldl (\<lambda>n c. 10 * n + (of_char c - 48)) 0 ds"

definition parse_nat :: "string \<Rightarrow> (nat \<times> string) option" where
  "parse_nat s =
     (let ds = takeWhile is_digit s; rest = dropWhile is_digit s
      in if ds = [] \<or> (hd ds = CHR ''0'' \<and> length ds > 1) then None
         else if rest \<noteq> [] \<and> (hd rest = CHR ''.'' \<or> hd rest = CHR ''e'' \<or> hd rest = CHR ''E'')
         then None
         else Some (nat_of_digits ds, rest))"

definition parse_number :: "string \<Rightarrow> (json \<times> string) option" where
  "parse_number s =
     (if starts_with ''-'' s
      then map_option (\<lambda>(n, rest). (JNum (- int n), rest)) (parse_nat (drop 1 s))
      else map_option (\<lambda>(n, rest). (JNum (int n), rest)) (parse_nat s))"

text \<open>
  A property defined twice keeps its first place and takes the later value, as
  \<^verbatim>\<open>JSON.parse\<close> builds the object.
\<close>

fun put :: "string \<Rightarrow> json \<Rightarrow> (string \<times> json) list \<Rightarrow> (string \<times> json) list" where
  "put k v [] = [(k, v)]"
| "put k v (p # ps) = (if fst p = k then (k, v) # ps else p # put k v ps)"

text \<open>
  The recursive descent, with fuel: every call consumes a character, so the length of
  the text is fuel enough. \<open>parse_elements\<close> reads the elements of an array after its
  bracket, \<open>parse_members\<close> the members of an object after its brace, adding them to
  those read so far.
\<close>

fun parse_value :: "nat \<Rightarrow> string \<Rightarrow> (json \<times> string) option"
  and parse_elements :: "nat \<Rightarrow> string \<Rightarrow> (json list \<times> string) option"
  and parse_members :: "nat \<Rightarrow> (string \<times> json) list \<Rightarrow> string \<Rightarrow> ((string \<times> json) list \<times> string) option"
where
  "parse_value 0 s = None"
| "parse_value (Suc n) s =
     (let t = skip_ws s
      in if starts_with ''null'' t then Some (JNull, drop 4 t)
         else if starts_with ''true'' t then Some (JBool True, drop 4 t)
         else if starts_with ''false'' t then Some (JBool False, drop 5 t)
         else if starts_with [CHR 0x22] t
         then map_option (\<lambda>(str, rest). (JStr str, rest)) (parse_string (drop 1 t))
         else if starts_with ''['' t
         then (if starts_with '']'' (skip_ws (drop 1 t))
               then Some (JArr [], drop 1 (skip_ws (drop 1 t)))
               else map_option (\<lambda>(vs, rest). (JArr vs, rest)) (parse_elements n (drop 1 t)))
         else if starts_with ''{'' t
         then (if starts_with ''}'' (skip_ws (drop 1 t))
               then Some (JObj [], drop 1 (skip_ws (drop 1 t)))
               else map_option (\<lambda>(kvs, rest). (JObj kvs, rest)) (parse_members n [] (drop 1 t)))
         else parse_number t)"
| "parse_elements 0 s = None"
| "parse_elements (Suc n) s =
     (case parse_value n s of
        None \<Rightarrow> None
      | Some (v, rest) \<Rightarrow>
          (let t = skip_ws rest
           in if starts_with '','' t
              then map_option (\<lambda>(vs, rest'). (v # vs, rest')) (parse_elements n (drop 1 t))
              else if starts_with '']'' t then Some ([v], drop 1 t)
              else None))"
| "parse_members 0 acc s = None"
| "parse_members (Suc n) acc s =
     (let t = skip_ws s
      in if \<not> starts_with [CHR 0x22] t then None
         else (case parse_string (drop 1 t) of
                 None \<Rightarrow> None
               | Some (k, rest) \<Rightarrow>
                   (let u = skip_ws rest
                    in if \<not> starts_with '':'' u then None
                       else (case parse_value n (drop 1 u) of
                               None \<Rightarrow> None
                             | Some (v, rest') \<Rightarrow>
                                 (let w = skip_ws rest'
                                  in if starts_with '','' w
                                     then parse_members n (put k v acc) (drop 1 w)
                                     else if starts_with ''}'' w
                                     then Some (put k v acc, drop 1 w)
                                     else None)))))"

definition parse :: "string \<Rightarrow> json option" where
  "parse s =
     (case parse_value (Suc (length s)) s of
        None \<Rightarrow> None
      | Some (v, rest) \<Rightarrow> if skip_ws rest = [] then Some v else None)"

text \<open>What may follow a number: nothing, or a character that cannot continue it.\<close>

definition ends_number :: "string \<Rightarrow> bool" where
  "ends_number rest =
     (rest = [] \<or> hd rest = CHR '','' \<or> hd rest = CHR '']'' \<or> hd rest = CHR ''}'')"

definition browser :: platform where
  "browser = \<lparr>JSON_parse = parse, JSON_stringify = stringify, io_defined = True, io_throws = False\<rparr>"

text \<open>
  A page before its script has run: an empty chat, empty fields, nothing displayed by an
  inline style, an empty store.
\<close>

definition blank_page :: state where
  "blank_page =
     \<lparr>chatbot = False, socket = None, sessionId = [], userId = 0, isConnected = False,
      isTyping = False, chatMessages = [], messageInput = [], inputFocused = False,
      sendButton_disabled = False, typingIndicator_display = [],
      connectionStatus_innerHTML = [], connectionStatus_className = [],
      connectionStatus_opacity = [], analyticsModal_display = [], analyticsContent = [],
      errorToast_display = [], successToast_display = [], errorMessage = [],
      successMessage = [], localStorage = Map.empty, emitted = [], io_calls = 0,
      fetched = [], console = [], timers = [], now = 1700000000000, uncaught = []\<rparr>"

section \<open>Notions the properties are stated with\<close>

text \<open>The events by which the user sends what the message field holds.\<close>

fun user_sends :: "event \<Rightarrow> bool" where
  "user_sends Click_sendButton = True"
| "user_sends (Keypress key shiftKey) = True"
| "user_sends (Click_chip m) = True"
| "user_sends e = False"

text \<open>The page becoming visible again, and the network coming back.\<close>

fun reconnect_trigger :: "event \<Rightarrow> bool" where
  "reconnect_trigger (Visibilitychange hidden) = (\<not> hidden)"
| "reconnect_trigger Online = True"
| "reconnect_trigger e = False"

text \<open>The typing indicator is displayed when its inline style says \<^verbatim>\<open>flex\<close>.\<close>

definition typing_displayed :: "state \<Rightarrow> bool" where
  "typing_displayed st = (typingIndicator_display st = ''flex'')"

text \<open>
  What the chat displays, as \<^verbatim>\<open>saveChatHistory\<close> reads it: for every message element
  its sender and the text of its bubble (\<open>None\<close> for an element without a bubble).
\<close>

definition sender_content :: "node \<Rightarrow> (string \<times> string) option" where
  "sender_content msg =
     (case querySelector ''message-bubble'' msg of
        None \<Rightarrow> None
      | Some bubble \<Rightarrow>
          Some (if has_class ''user'' msg then ''user'' else ''bot'', textContent bubble))"

definition displayed :: "state \<Rightarrow> (string \<times> string) option list" where
  "displayed st = map sender_content (querySelectorAll ''message'' (chatMessages st))"

text \<open>
  A call \<^verbatim>\<open>addMessage(content, sender, metadata)\<close> with strings for content and sender
  (\<open>fst c\<close> is the content that is passed). \<open>bubble_text\<close> is the \<^verbatim>\<open>textContent\<close> of the
  bubble the call builds: the content, followed by the text of the metadata block where
  the call appends one to the bubble. It is what \<^verbatim>\<open>saveChatHistory\<close> stores in the field
  \<^verbatim>\<open>content\<close>; \<open>saved_json\<close> is the array it builds at time \<open>t\<close> from a chat made by such
  calls.
\<close>

type_synonym call = "string \<times> string \<times> metadata"

definition add_call :: "platform \<Rightarrow> state \<Rightarrow> call \<Rightarrow> state" where
  "add_call P st c =
     addMessage P (Some (JStr (fst c))) (Some (JStr (fst (snd c)))) (snd (snd c)) st"

definition bubble_text :: "call \<Rightarrow> string" where
  "bubble_text c =
     fst c @
     (if fst (snd c) = ''bot'' \<and> truthy (intent (snd (snd c)))
      then textContent (metaDiv (snd (snd c))) else [])"

definition call_div :: "call \<Rightarrow> node" where
  "call_div c = messageDiv (Some (JStr (fst c))) (Some (JStr (fst (snd c)))) (snd (snd c))"

definition call_entry :: "int \<Rightarrow> call \<Rightarrow> json" where
  "call_entry t c =
     JObj [(''sender'', JStr (fst (snd c))), (''content'', JStr (bubble_text c)),
           (''timestamp'', JNum t)]"

definition saved_json :: "int \<Rightarrow> call list \<Rightarrow> json" where
  "saved_json t calls = JArr (map (call_entry t) calls)"

text \<open>
  The platform's JSON functions agree on a value: its text is not empty and parses back
  to the value.
\<close>

definition json_roundtrips :: "platform \<Rightarrow> json \<Rightarrow> bool" where
  "json_roundtrips P v =
     (JSON_stringify P v \<noteq> [] \<and> JSON_parse P (JSON_stringify P v) = Some v)"

text \<open>The call by which \<^verbatim>\<open>loadChatHistory\<close> adds an entry the save wrote for \<open>c\<close>.\<close>

definition reloaded :: "call \<Rightarrow> call" where
  "reloaded c = (bubble_text c, fst (snd c), no_metadata)"

text \<open>The store with the slot \<open>k\<close> set to \<open>v\<close> (removed, for \<open>None\<close>).\<close>

definition with_slot :: "string \<Rightarrow> string option \<Rightarrow> state \<Rightarrow> state" where
  "with_slot k v st = st\<lparr>localStorage := (localStorage st)(k := v)\<rparr>"

section \<open>An example session\<close>

text \<open>
  A user message and a bot response with its intent (the call that \<^verbatim>\<open>handleBotResponse\<close>
  makes), added to the blank page of session \<open>s1\<close> and saved; then the page reloaded for
  the same session, at a later time. \<open>merged\<close> is the content the bot response comes
  back with.
\<close>

definition example_calls :: "call list" where
  "example_calls =
     [(''hello'', ''user'', no_metadata),
      (''Hi there'', ''bot'', \<lparr>intent = Some ''greeting'', confidence_pct = ''95''\<rparr>)]"

definition merged :: string where
  "merged =
     ''Hi there'' @ nl @ spaces 16 @ nl @ spaces 20 @ ''Intent: greeting (95% confidence)'' @
     nl @ spaces 16 @ nl @ spaces 12"

definition example_chat :: state where
  "example_chat =
     saveChatHistory browser (foldl (add_call browser) (blank_page\<lparr>sessionId := ''s1''\<rparr>) example_calls)"

definition example_reload :: state where
  "example_reload =
     loadChatHistory browser
       (blank_page\<lparr>now := 2000, sessionId := sessionId example_chat,
                   localStorage := localStorage example_chat\<rparr>)"

section \<open>Frame lemmas\<close>

text \<open>What each method leaves alone. The properties below are assembled from these.\<close>

lemmas toast_defs = showError_def showSuccess_def showToast_def hideToast_def

lemmas handler_defs =
  on_connect_def on_disconnect_def on_connect_error_def on_message_def on_typing_def
  on_error_def handleBotResponse_def showTypingIndicator_def hideTypingIndicator_def
  updateConnectionStatus_def scrollToBottom_def clearChat_def showAnalytics_def
  showAnalytics_settled_def analytics_failed_def renderAnalytics_def hideAnalytics_def
  visibilitychange_def online_def offline_def initializeSocket_def fire_def

lemma all_dropWhile: "(\<forall>x\<in>set (dropWhile Q s). Q x) \<longleftrightarrow> (\<forall>x\<in>set s. Q x)"
  by (induction s) auto

lemma trim_empty_iff: "trim s = [] \<longleftrightarrow> (\<forall>c\<in>set s. is_space c)"
  by (simp add: trim_def dropWhile_eq_Nil_conv all_dropWhile)

lemma saveChatHistory_frame:
  "\<exists>c l. saveChatHistory P st = st\<lparr>localStorage := l, console := c\<rparr>"
proof (cases "those (map (message_entry (now st)) (querySelectorAll ''message'' (chatMessages st)))")
  case None
  then have "saveChatHistory P st =
      st\<lparr>localStorage := localStorage st,
         console := console st @ [console_error ''Failed to save chat history:'']\<rparr>"
    by (simp add: saveChatHistory_def)
  then show ?thesis by blast
next
  case (Some a)
  then have "saveChatHistory P st =
      st\<lparr>localStorage := (localStorage st)(history_key (sessionId st) \<mapsto> JSON_stringify P (JArr a)),
         console := console st\<rparr>"
    by (simp add: saveChatHistory_def)
  then show ?thesis by blast
qed

lemma saveChatHistory_fields [simp]:
  "chatbot (saveChatHistory P st) = chatbot st"
  "socket (saveChatHistory P st) = socket st"
  "sessionId (saveChatHistory P st) = sessionId st"
  "userId (saveChatHistory P st) = userId st"
  "isConnected (saveChatHistory P st) = isConnected st"
  "isTyping (saveChatHistory P st) = isTyping st"
  "chatMessages (saveChatHistory P st) = chatMessages st"
  "messageInput (saveChatHistory P st) = messageInput st"
  "sendButton_disabled (saveChatHistory P st) = sendButton_disabled st"
  "typingIndicator_display (saveChatHistory P st) = typingIndicator_display st"
  "errorToast_display (saveChatHistory P st) = errorToast_display st"
  "successToast_display (saveChatHistory P st) = successToast_display st"
  "errorMessage (saveChatHistory P st) = errorMessage st"
  "successMessage (saveChatHistory P st) = successMessage st"
  "emitted (saveChatHistory P st) = emitted st"
  "io_calls (saveChatHistory P st) = io_calls st"
  "timers (saveChatHistory P st) = timers st"
  "now (saveChatHistory P st) = now st"
  "uncaught (saveChatHistory P st) = uncaught st"
  using saveChatHistory_frame [of P st] by auto

lemma addMessage_fields [simp]:
  "chatbot (addMessage P c s md st) = chatbot st"
  "socket (addMessage P c s md st) = socket st"
  "sessionId (addMessage P c s md st) = sessionId st"
  "userId (addMessage P c s md st) = userId st"
  "isConnected (addMessage P c s md st) = isConnected st"
  "isTyping (addMessage P c s md st) = isTyping st"
  "chatMessages (addMessage P c s md st) = chatMessages st @ [messageDiv c s md]"
  "messageInput (addMessage P c s md st) = messageInput st"
  "sendButton_disabled (addMessage P c s md st) = sendButton_disabled st"
  "typingIndicator_display (addMessage P c s md st) = typingIndicator_display st"
  "errorToast_display (addMessage P c s md st) = errorToast_display st"
  "successToast_display (addMessage P c s md st) = successToast_display st"
  "errorMessage (addMessage P c s md st) = errorMessage st"
  "successMessage (addMessage P c s md st) = successMessage st"
  "emitted (addMessage P c s md st) = emitted st"
  "io_calls (addMessage P c s md st) = io_calls st"
  "timers (addMessage P c s md st) = timers st @ [(100, ScrollToBottom)]"
  "now (addMessage P c s md st) = now st"
  "uncaught (addMessage P c s md st) = uncaught st"
  by (simp_all add: addMessage_def scrollToBottom_def)

lemma set_toast_display_fields [simp]:
  "emitted (set_toast_display t d st) = emitted st"
  "io_calls (set_toast_display t d st) = io_calls st"
  "isTyping (set_toast_display t d st) = isTyping st"
  "typingIndicator_display (set_toast_display t d st) = typingIndicator_display st"
  "timers (set_toast_display t d st) = timers st"
  by (cases t; simp)+

lemma run_callback_fields [simp]:
  "emitted (run_callback cb st) = emitted st"
  "io_calls (run_callback cb st) = io_calls st"
  "isTyping (run_callback cb st) = isTyping st"
  "typingIndicator_display (run_callback cb st) = typingIndicator_display st"
  by (cases cb; simp add: hideToast_def)+

lemma sendMessage_fields [simp]:
  "io_calls (sendMessage P st) = io_calls st"
  "isTyping (sendMessage P st) = isTyping st"
  "typingIndicator_display (sendMessage P st) = typingIndicator_display st"
  by (simp_all add: sendMessage_def Let_def toast_defs split: option.split)

lemma load_failed_fields [simp]:
  "chatbot (load_failed st) = chatbot st"
  "socket (load_failed st) = socket st"
  "sessionId (load_failed st) = sessionId st"
  "isConnected (load_failed st) = isConnected st"
  "isTyping (load_failed st) = isTyping st"
  "chatMessages (load_failed st) = chatMessages st"
  "typingIndicator_display (load_failed st) = typingIndicator_display st"
  "errorToast_display (load_failed st) = errorToast_display st"
  "successToast_display (load_failed st) = successToast_display st"
  "errorMessage (load_failed st) = errorMessage st"
  "successMessage (load_failed st) = successMessage st"
  "localStorage (load_failed st) = localStorage st"
  "emitted (load_failed st) = emitted st"
  "io_calls (load_failed st) = io_calls st"
  "timers (load_failed st) = timers st"
  "now (load_failed st) = now st"
  "uncaught (load_failed st) = uncaught st"
  by (simp_all add: load_failed_def)

lemma forEach_load_fields [simp]:
  "chatbot (forEach_load P ms st) = chatbot st"
  "socket (forEach_load P ms st) = socket st"
  "sessionId (forEach_load P ms st) = sessionId st"
  "isConnected (forEach_load P ms st) = isConnected st"
  "isTyping (forEach_load P ms st) = isTyping st"
  "typingIndicator_display (forEach_load P ms st) = typingIndicator_display st"
  "errorToast_display (forEach_load P ms st) = errorToast_display st"
  "successToast_display (forEach_load P ms st) = successToast_display st"
  "errorMessage (forEach_load P ms st) = errorMessage st"
  "successMessage (forEach_load P ms st) = successMessage st"
  "emitted (forEach_load P ms st) = emitted st"
  "io_calls (forEach_load P ms st) = io_calls st"
  "now (forEach_load P ms st) = now st"
  "uncaught (forEach_load P ms st) = uncaught st"
  by (induction ms arbitrary: st; simp)+

lemma loadChatHistory_fields [simp]:
  "chatbot (loadChatHistory P st) = chatbot st"
  "socket (loadChatHistory P st) = socket st"
  "sessionId (loadChatHistory P st) = sessionId st"
  "isConnected (loadChatHistory P st) = isConnected st"
  "isTyping (loadChatHistory P st) = isTyping st"
  "typingIndicator_display (loadChatHistory P st) = typingIndicator_display st"
  "errorToast_display (loadChatHistory P st) = errorToast_display st"
  "successToast_display (loadChatHistory P st) = successToast_display st"
  "errorMessage (loadChatHistory P st) = errorMessage st"
  "successMessage (loadChatHistory P st) = successMessage st"
  "emitted (loadChatHistory P st) = emitted st"
  "io_calls (loadChatHistory P st) = io_calls st"
  "now (loadChatHistory P st) = now st"
  "uncaught (loadChatHistory P st) = uncaught st"
  by (simp_all add: loadChatHistory_def split: option.split json.split)

lemma new_ChatbotApp_typing:
  "isTyping (new_ChatbotApp P rnd page) = False"
  "typingIndicator_display (new_ChatbotApp P rnd page) = typingIndicator_display page"
  by (simp_all add: new_ChatbotApp_def init_def initializeSocket_def toast_defs Let_def)

subsection \<open>One event, and a run of events\<close>

lemma emitted_handle: "\<not> user_sends e \<Longrightarrow> emitted (handle P e st) = emitted st"
  by (cases e) (simp_all add: handler_defs toast_defs Let_def split: fetch_result.split)

lemma io_calls_handle:
  "io_calls (handle P e st) =
     (if reconnect_trigger e \<and> chatbot st \<and> \<not> isConnected st then io_calls st + 1
      else io_calls st)"
  by (cases e) (simp_all add: handler_defs toast_defs Let_def split: fetch_result.split)

lemma typing_handle:
  "isTyping st \<longleftrightarrow> typing_displayed st \<Longrightarrow>
   isTyping (handle P e st) \<longleftrightarrow> typing_displayed (handle P e st)"
  by (cases e)
     (auto simp add: typing_displayed_def handler_defs toast_defs Let_def split: fetch_result.split)

lemma emitted_run:
  "\<forall>e\<in>set es. \<not> user_sends e \<Longrightarrow> emitted (run P es st) = emitted st"
  unfolding run_def by (induction es arbitrary: st) (simp_all add: emitted_handle)

lemma io_calls_run:
  "\<forall>e\<in>set es. \<not> reconnect_trigger e \<Longrightarrow> io_calls (run P es st) = io_calls st"
  unfolding run_def by (induction es arbitrary: st) (simp_all add: io_calls_handle)

lemma typing_run:
  "isTyping st \<longleftrightarrow> typing_displayed st \<Longrightarrow>
   isTyping (run P es st) \<longleftrightarrow> typing_displayed (run P es st)"
  unfolding run_def
proof (induction es arbitrary: st)
  case Nil
  then show ?case by simp
next
  case (Cons e es)
  from Cons.prems typing_handle [of st P e]
  have "isTyping (handle P e st) \<longleftrightarrow> typing_displayed (handle P e st)" by blast
  then show ?case using Cons.IH by simp
qed

section \<open>Sending a message\<close>

text \<open>
  C3. When the message field is empty or holds only white space, \<^verbatim>\<open>sendMessage\<close>
  transmits nothing over the channel and raises the error notification
  ``Please enter a message'': it does what \<^verbatim>\<open>showError\<close> does and nothing else.
\<close>

theorem sendMessage_blank_input:
  assumes "\<forall>c\<in>set (messageInput st). is_space c"
  shows "sendMessage P st = showError ''Please enter a message'' st \<and>
         emitted (sendMessage P st) = emitted st \<and>
         errorMessage (sendMessage P st) = ''Please enter a message'' \<and>
         errorToast_display (sendMessage P st) = ''flex''"
proof -
  from assms have "trim (messageInput st) = []"
    by (simp add: trim_empty_iff)
  then have "sendMessage P st = showError ''Please enter a message'' st"
    by (simp add: sendMessage_def)
  then show ?thesis
    by (simp add: toast_defs)
qed

theorem sendMessage_blank_input_witness:
  "emitted (sendMessage browser
      (blank_page\<lparr>chatbot := True, isConnected := True, socket := Some 0,
                  messageInput := [CHR '' '', CHR 0x09, CHR 0x0A]\<rparr>)) = [] \<and>
   errorMessage (sendMessage browser
      (blank_page\<lparr>chatbot := True, isConnected := True, socket := Some 0,
                  messageInput := [CHR '' '', CHR 0x09, CHR 0x0A]\<rparr>)) = ''Please enter a message''"
proof -
  let ?st = "blank_page\<lparr>chatbot := True, isConnected := True, socket := Some 0,
                        messageInput := [CHR '' '', CHR 0x09, CHR 0x0A]\<rparr>"
  have h: "\<forall>c\<in>set (messageInput ?st). is_space c"
    by (simp add: is_space_def)
  have e: "emitted ?st = []"
    by (simp add: blank_page_def)
  from sendMessage_blank_input [OF h, of browser]
  have "emitted (sendMessage browser ?st) = emitted ?st"
    and "errorMessage (sendMessage browser ?st) = ''Please enter a message''"
    by blast+
  with e show ?thesis by simp
qed

text \<open>
  C4. When the field holds a message and the client is not connected, \<^verbatim>\<open>sendMessage\<close>
  transmits nothing and raises the error notification ``Not connected to server. Please
  wait...''. The message is not kept for later delivery: whatever events follow, as long
  as the user does not send again, nothing is ever emitted.
\<close>

theorem sendMessage_disconnected:
  assumes "trim (messageInput st) \<noteq> []" and "\<not> isConnected st"
  shows "sendMessage P st = showError ''Not connected to server. Please wait...'' st \<and>
         emitted (sendMessage P st) = emitted st \<and>
         errorMessage (sendMessage P st) = ''Not connected to server. Please wait...'' \<and>
         errorToast_display (sendMessage P st) = ''flex'' \<and>
         (\<forall>es. (\<forall>e\<in>set es. \<not> user_sends e) \<longrightarrow>
               emitted (run P es (sendMessage P st)) = emitted st)"
proof -
  from assms
  have eq: "sendMessage P st = showError ''Not connected to server. Please wait...'' st"
    by (simp add: sendMessage_def)
  have em: "emitted (sendMessage P st) = emitted st"
    by (simp add: eq toast_defs)
  have "emitted (run P es (sendMessage P st)) = emitted st"
    if "\<forall>e\<in>set es. \<not> user_sends e" for es
    using emitted_run [OF that, of P "sendMessage P st"] em by simp
  then show ?thesis
    using em by (simp add: eq toast_defs)
qed

theorem sendMessage_disconnected_witness:
  "emitted (run browser [Socket_connect, Timeout 0, Online]
      (sendMessage browser (blank_page\<lparr>chatbot := True, messageInput := ''hello''\<rparr>))) = [] \<and>
   errorMessage (sendMessage browser (blank_page\<lparr>chatbot := True, messageInput := ''hello''\<rparr>)) =
     ''Not connected to server. Please wait...''"
proof -
  let ?st = "blank_page\<lparr>chatbot := True, messageInput := ''hello''\<rparr>"
  have a: "trim (messageInput ?st) \<noteq> []"
    by (simp add: trim_def is_space_def)
  have b: "\<not> isConnected ?st"
    by (simp add: blank_page_def)
  have c: "\<forall>e\<in>set [Socket_connect, Timeout 0, Online]. \<not> user_sends e"
    by simp
  have e: "emitted ?st = []"
    by (simp add: blank_page_def)
  from sendMessage_disconnected [OF a b, of browser]
  have "\<forall>es. (\<forall>e\<in>set es. \<not> user_sends e) \<longrightarrow>
          emitted (run browser es (sendMessage browser ?st)) = emitted ?st"
    and m: "errorMessage (sendMessage browser ?st) = ''Not connected to server. Please wait...''"
    by blast+
  with c have "emitted (run browser [Socket_connect, Timeout 0, Online]
                 (sendMessage browser ?st)) = emitted ?st"
    by blast
  with e m show ?thesis by simp
qed

text \<open>
  C9. When \<^verbatim>\<open>sendMessage\<close> rejects the send (blank input, or not connected), the state
  changes in the error toast only: its text, its display and its pending auto-hide timer.
  The message field keeps its content, no message is appended to the chat, nothing is
  written to the store, the send button keeps its state and nothing is emitted. When the
  send is accepted, the field is cleared; so it is cleared on a successful send only.
\<close>

theorem sendMessage_rejected_frame:
  "(trim (messageInput st) = [] \<or> \<not> isConnected st \<longrightarrow>
      sendMessage P st =
        st\<lparr>errorMessage := (if trim (messageInput st) = [] then ''Please enter a message''
                              else ''Not connected to server. Please wait...''),
           errorToast_display := ''flex'',
           timers := timers st @ [(5000, HideToast errorToast)]\<rparr> \<and>
      messageInput (sendMessage P st) = messageInput st \<and>
      chatMessages (sendMessage P st) = chatMessages st \<and>
      localStorage (sendMessage P st) = localStorage st \<and>
      sendButton_disabled (sendMessage P st) = sendButton_disabled st \<and>
      emitted (sendMessage P st) = emitted st) \<and>
   (trim (messageInput st) \<noteq> [] \<and> isConnected st \<longrightarrow>
      messageInput (sendMessage P st) = [])"
  by (simp add: sendMessage_def Let_def toast_defs split: option.split)

theorem sendMessage_rejected_frame_witness:
  "messageInput (sendMessage browser (blank_page\<lparr>messageInput := ''  hello ''\<rparr>)) = ''  hello '' \<and>
   chatMessages (sendMessage browser (blank_page\<lparr>messageInput := ''  hello ''\<rparr>)) = [] \<and>
   sendButton_disabled (sendMessage browser (blank_page\<lparr>messageInput := ''  hello ''\<rparr>)) = False \<and>
   messageInput (sendMessage browser
     (blank_page\<lparr>messageInput := ''  hello '', isConnected := True, socket := Some 0\<rparr>)) = []"
  using sendMessage_rejected_frame [of "blank_page\<lparr>messageInput := ''  hello ''\<rparr>" browser]
    sendMessage_rejected_frame
      [of "blank_page\<lparr>messageInput := ''  hello '', isConnected := True, socket := Some 0\<rparr>" browser]
  by (simp add: blank_page_def trim_def is_space_def)

section \<open>The typing indicator\<close>

text \<open>
  C10. \<^verbatim>\<open>showTypingIndicator\<close> and \<^verbatim>\<open>hideTypingIndicator\<close> are idempotent. The flag
  \<^verbatim>\<open>isTyping\<close> agrees with the display of the indicator after any sequence of the two
  calls (\<open>on_typing True\<close> is the one, \<open>on_typing False\<close> the other), and after any run of
  events, provided they agreed before; the constructor makes them agree on a page whose
  indicator is not displayed.
\<close>

theorem typing_indicator_idempotent:
  "showTypingIndicator (showTypingIndicator st) = showTypingIndicator st \<and>
   hideTypingIndicator (hideTypingIndicator st) = hideTypingIndicator st \<and>
   ((isTyping st \<longleftrightarrow> typing_displayed st) \<longrightarrow>
      (isTyping (foldl (\<lambda>s typing. on_typing typing s) st bs) \<longleftrightarrow>
       typing_displayed (foldl (\<lambda>s typing. on_typing typing s) st bs)) \<and>
      (isTyping (run P es st) \<longleftrightarrow> typing_displayed (run P es st))) \<and>
   (\<not> typing_displayed page \<longrightarrow>
      (isTyping (new_ChatbotApp P rnd page) \<longleftrightarrow> typing_displayed (new_ChatbotApp P rnd page)))"
proof -
  have inv: "isTyping (foldl (\<lambda>s typing. on_typing typing s) st bs) \<longleftrightarrow>
             typing_displayed (foldl (\<lambda>s typing. on_typing typing s) st bs)"
    if "isTyping st \<longleftrightarrow> typing_displayed st"
    using that
    by (induction bs arbitrary: st)
       (simp_all add: on_typing_def showTypingIndicator_def hideTypingIndicator_def
          scrollToBottom_def typing_displayed_def)
  have new: "isTyping (new_ChatbotApp P rnd page) \<longleftrightarrow> typing_displayed (new_ChatbotApp P rnd page)"
    if "\<not> typing_displayed page"
    using that by (simp add: typing_displayed_def new_ChatbotApp_typing)
  show ?thesis
    using inv new typing_run [of st P es]
    by (simp add: showTypingIndicator_def hideTypingIndicator_def scrollToBottom_def)
qed

theorem typing_indicator_idempotent_witness:
  "isTyping (foldl (\<lambda>s typing. on_typing typing s) blank_page [True, True, False, True]) \<and>
   typing_displayed (foldl (\<lambda>s typing. on_typing typing s) blank_page [True, True, False, True]) \<and>
   \<not> isTyping (new_ChatbotApp browser ''k3x9q0a7z'' blank_page) \<and>
   \<not> typing_displayed (new_ChatbotApp browser ''k3x9q0a7z'' blank_page)"
proof -
  have a: "isTyping blank_page \<longleftrightarrow> typing_displayed blank_page"
    and b: "\<not> typing_displayed blank_page"
    by (simp_all add: blank_page_def typing_displayed_def)
  have c: "isTyping (foldl (\<lambda>s typing. on_typing typing s) blank_page [True, True, False, True])"
    by (simp add: blank_page_def on_typing_def showTypingIndicator_def hideTypingIndicator_def
        scrollToBottom_def)
  have d: "\<not> isTyping (new_ChatbotApp browser ''k3x9q0a7z'' blank_page)"
    by (simp add: new_ChatbotApp_typing)
  from typing_indicator_idempotent
    [of blank_page "[True, True, False, True]" browser "[]" blank_page "''k3x9q0a7z''"] a b
  have "isTyping (foldl (\<lambda>s typing. on_typing typing s) blank_page [True, True, False, True]) \<longleftrightarrow>
        typing_displayed (foldl (\<lambda>s typing. on_typing typing s) blank_page [True, True, False, True])"
    and "isTyping (new_ChatbotApp browser ''k3x9q0a7z'' blank_page) \<longleftrightarrow>
         typing_displayed (new_ChatbotApp browser ''k3x9q0a7z'' blank_page)"
    by blast+
  with c d show ?thesis by blast
qed

section \<open>Reconnecting\<close>

text \<open>
  C8. The client opens a connection, after the one of its construction, in two handlers
  only: when the page becomes visible again and when the network comes back, and in both
  only if the application exists and is not connected. No other handler calls
  \<^verbatim>\<open>io\<close>: not the handlers of a transport failure (which leave the client
  disconnected), not a timer. So a run of events without one of the two triggers opens no
  connection. (Socket.IO's own reconnection inside a socket is the library's, not the
  program's.)
\<close>

theorem reconnect_only_on_trigger:
  "io_calls (handle P e st) =
     (if reconnect_trigger e \<and> chatbot st \<and> \<not> isConnected st then io_calls st + 1
      else io_calls st) \<and>
   ((\<forall>e\<in>set es. \<not> reconnect_trigger e) \<longrightarrow> io_calls (run P es st) = io_calls st) \<and>
   (chatbot st \<longrightarrow>
      \<not> isConnected (handle P Socket_disconnect st) \<and>
      \<not> isConnected (handle P Socket_connect_error st))"
  using io_calls_handle [of P e st] io_calls_run [of es P st]
  by (simp add: on_disconnect_def on_connect_error_def updateConnectionStatus_def toast_defs Let_def)

theorem reconnect_only_on_trigger_witness:
  "io_calls (run browser
      [Socket_connect_error, Click_sendButton, Timeout 0, Offline, Visibilitychange True]
      (blank_page\<lparr>chatbot := True\<rparr>)) = 0 \<and>
   io_calls (handle browser Online (blank_page\<lparr>chatbot := True\<rparr>)) = 1 \<and>
   io_calls (handle browser Online (blank_page\<lparr>chatbot := True, isConnected := True\<rparr>)) = 0"
proof -
  let ?es = "[Socket_connect_error, Click_sendButton, Timeout 0, Offline, Visibilitychange True]"
  have n: "\<forall>e\<in>set ?es. \<not> reconnect_trigger e"
    by simp
  have z: "io_calls (blank_page\<lparr>chatbot := True\<rparr>) = 0"
    "io_calls (blank_page\<lparr>chatbot := True, isConnected := True\<rparr>) = 0"
    "chatbot (blank_page\<lparr>chatbot := True\<rparr>)"
    "\<not> isConnected (blank_page\<lparr>chatbot := True\<rparr>)"
    "isConnected (blank_page\<lparr>chatbot := True, isConnected := True\<rparr>)"
    by (simp_all add: blank_page_def)
  from reconnect_only_on_trigger [of browser Online "blank_page\<lparr>chatbot := True\<rparr>" ?es] n
  have "io_calls (run browser ?es (blank_page\<lparr>chatbot := True\<rparr>)) =
          io_calls (blank_page\<lparr>chatbot := True\<rparr>)"
    and "io_calls (handle browser Online (blank_page\<lparr>chatbot := True\<rparr>)) =
          (if reconnect_trigger Online \<and> chatbot (blank_page\<lparr>chatbot := True\<rparr>) \<and>
              \<not> isConnected (blank_page\<lparr>chatbot := True\<rparr>)
           then io_calls (blank_page\<lparr>chatbot := True\<rparr>) + 1
           else io_calls (blank_page\<lparr>chatbot := True\<rparr>))"
    by blast+
  moreover
  from reconnect_only_on_trigger
    [of browser Online "blank_page\<lparr>chatbot := True, isConnected := True\<rparr>" "[]"]
  have "io_calls (handle browser Online (blank_page\<lparr>chatbot := True, isConnected := True\<rparr>)) =
          (if reconnect_trigger Online \<and> chatbot (blank_page\<lparr>chatbot := True, isConnected := True\<rparr>) \<and>
              \<not> isConnected (blank_page\<lparr>chatbot := True, isConnected := True\<rparr>)
           then io_calls (blank_page\<lparr>chatbot := True, isConnected := True\<rparr>) + 1
           else io_calls (blank_page\<lparr>chatbot := True, isConnected := True\<rparr>))"
    by blast
  ultimately show ?thesis
    using z by simp
qed

section \<open>The persisted history\<close>

subsection \<open>The slot of a session\<close>

lemma history_key_inj: "history_key a = history_key b \<longleftrightarrow> a = b"
  by (simp add: history_key_def)

lemma saveChatHistory_other_slot:
  "k \<noteq> history_key (sessionId st) \<Longrightarrow> localStorage (saveChatHistory P st) k = localStorage st k"
  by (simp add: saveChatHistory_def split: option.split)

lemma addMessage_other_slot:
  "k \<noteq> history_key (sessionId st) \<Longrightarrow> localStorage (addMessage P c s md st) k = localStorage st k"
  by (simp add: addMessage_def scrollToBottom_def saveChatHistory_other_slot)

lemma forEach_load_other_slot:
  "k \<noteq> history_key (sessionId st) \<Longrightarrow> localStorage (forEach_load P ms st) k = localStorage st k"
  by (induction ms arbitrary: st) (simp_all add: addMessage_other_slot)

lemma loadChatHistory_other_slot:
  "k \<noteq> history_key (sessionId st) \<Longrightarrow> localStorage (loadChatHistory P st) k = localStorage st k"
  by (simp add: loadChatHistory_def forEach_load_other_slot split: option.split json.split)

lemma clearChat_other_slot:
  "k \<noteq> history_key (sessionId st) \<Longrightarrow> localStorage (clearChat c st) k = localStorage st k"
  by (simp add: clearChat_def toast_defs)

text \<open>
  What another slot holds has no influence on what the operations do: they commute with
  a change of that slot.
\<close>

lemma with_slot_sessionId [simp]: "sessionId (with_slot k v st) = sessionId st"
  by (simp add: with_slot_def)

lemma upd_swap: "k \<noteq> j \<Longrightarrow> (m(k := v))(j \<mapsto> x) = (m(j \<mapsto> x))(k := v)"
  by (rule fun_upd_twist)

lemma saveChatHistory_commute:
  "k \<noteq> history_key (sessionId st) \<Longrightarrow>
   saveChatHistory P (with_slot k v st) = with_slot k v (saveChatHistory P st)"
  by (simp add: with_slot_def saveChatHistory_def upd_swap split: option.split)

lemma addMessage_commute:
  "k \<noteq> history_key (sessionId st) \<Longrightarrow>
   addMessage P c s md (with_slot k v st) = with_slot k v (addMessage P c s md st)"
  by (simp add: with_slot_def addMessage_def scrollToBottom_def saveChatHistory_def upd_swap
      split: option.split)

lemma load_failed_commute: "load_failed (with_slot k v st) = with_slot k v (load_failed st)"
  by (simp add: with_slot_def load_failed_def)

lemma forEach_load_commute:
  "k \<noteq> history_key (sessionId st) \<Longrightarrow>
   forEach_load P ms (with_slot k v st) = with_slot k v (forEach_load P ms st)"
  by (induction ms arbitrary: st) (simp_all add: addMessage_commute load_failed_commute)

lemma loadChatHistory_commute:
  assumes "k \<noteq> history_key (sessionId st)"
  shows "loadChatHistory P (with_slot k v st) = with_slot k v (loadChatHistory P st)"
proof -
  from assms have same: "localStorage (with_slot k v st) (history_key (sessionId st)) =
                         localStorage st (history_key (sessionId st))"
    by (simp add: with_slot_def)
  show ?thesis
    using assms
    by (simp add: loadChatHistory_def same forEach_load_commute load_failed_commute
        split: option.split json.split)
qed

lemma clearChat_commute:
  "k \<noteq> history_key (sessionId st) \<Longrightarrow>
   clearChat c (with_slot k v st) = with_slot k v (clearChat c st)"
  by (simp add: clearChat_def toast_defs with_slot_def fun_upd_twist)

text \<open>
  C2, as the claim states it, fails on the code: the key is not \<^verbatim>\<open>history:<sessionId>\<close>.
  For the session \<open>s1\<close>, a save writes the slot \<^verbatim>\<open>chat_history_s1\<close> and leaves
  \<^verbatim>\<open>history:s1\<close> absent; and after the chat is cleared the session has no slot at all,
  so it is not the case that exactly one exists.
\<close>

theorem history_slot_key_counterexample:
  "localStorage (saveChatHistory browser (blank_page\<lparr>sessionId := ''s1''\<rparr>)) ''history:s1'' = None \<and>
   localStorage (saveChatHistory browser (blank_page\<lparr>sessionId := ''s1''\<rparr>)) ''chat_history_s1''
     = Some ''[]'' \<and>
   localStorage (clearChat True (saveChatHistory browser (blank_page\<lparr>sessionId := ''s1''\<rparr>)))
     ''chat_history_s1'' = None \<and>
   localStorage (clearChat True (saveChatHistory browser (blank_page\<lparr>sessionId := ''s1''\<rparr>)))
     ''history:s1'' = None"
  by (simp add: saveChatHistory_def clearChat_def toast_defs blank_page_def browser_def
      querySelectorAll_def history_key_def join_def)

text \<open>
  C2, amended. The slot of a session is \<^verbatim>\<open>chat_history_<sessionId>\<close>, in each of save,
  load and clear. The key is a function of the session id, so a session has at most one
  slot, and distinct sessions have distinct slots. The three operations leave every other
  slot as it is, and what another slot holds does not change what they do.
\<close>

theorem history_slot_key:
  "history_key sid = ''chat_history_'' @ sid \<and>
   (history_key a = history_key b \<longleftrightarrow> a = b) \<and>
   (k \<noteq> history_key (sessionId st) \<longrightarrow>
      localStorage (saveChatHistory P st) k = localStorage st k \<and>
      localStorage (loadChatHistory P st) k = localStorage st k \<and>
      localStorage (clearChat c st) k = localStorage st k \<and>
      saveChatHistory P (with_slot k v st) = with_slot k v (saveChatHistory P st) \<and>
      loadChatHistory P (with_slot k v st) = with_slot k v (loadChatHistory P st) \<and>
      clearChat c (with_slot k v st) = with_slot k v (clearChat c st))"
proof -
  have "history_key sid = ''chat_history_'' @ sid"
    by (simp add: history_key_def)
  then show ?thesis
    using saveChatHistory_other_slot [of k st P] loadChatHistory_other_slot [of k st P]
      clearChat_other_slot [of k st c] saveChatHistory_commute [of k st P v]
      loadChatHistory_commute [of k st P v] clearChat_commute [of k st c v]
      history_key_inj [of a b]
    by blast
qed

theorem history_slot_key_witness:
  "localStorage (saveChatHistory browser
      (with_slot ''chat_history_s2'' (Some ''[1]'') (blank_page\<lparr>sessionId := ''s1''\<rparr>)))
      ''chat_history_s2'' = Some ''[1]'' \<and>
   localStorage (clearChat True
      (with_slot ''chat_history_s2'' (Some ''[1]'') (blank_page\<lparr>sessionId := ''s1''\<rparr>)))
      ''chat_history_s2'' = Some ''[1]''"
proof -
  let ?st = "with_slot ''chat_history_s2'' (Some ''[1]'') (blank_page\<lparr>sessionId := ''s1''\<rparr>)"
  have k: "''chat_history_s2'' \<noteq> history_key (sessionId ?st)"
    by (simp add: history_key_def)
  have v: "localStorage ?st ''chat_history_s2'' = Some ''[1]''"
    by (simp add: with_slot_def)
  from history_slot_key [of _ _ _ "''chat_history_s2''" ?st browser True] k
  have "localStorage (saveChatHistory browser ?st) ''chat_history_s2'' =
          localStorage ?st ''chat_history_s2''"
    and "localStorage (clearChat True ?st) ''chat_history_s2'' = localStorage ?st ''chat_history_s2''"
    by blast+
  with v show ?thesis by simp
qed

subsection \<open>Loading an absent or malformed history\<close>

text \<open>
  C5. When the slot of the session is absent, or holds a text that \<^verbatim>\<open>JSON.parse\<close>
  refuses, \<^verbatim>\<open>loadChatHistory\<close> renders no message and lets no exception escape. An
  absent slot and the empty text are skipped without a parse, and the state is unchanged.
  Any other refused text is a parse failure, and it is logged: the state changes by
  exactly one \<^verbatim>\<open>console.error\<close> entry. In no case is a toast raised or a timer set.
\<close>

theorem loadChatHistory_absent_or_malformed:
  assumes "localStorage st (history_key (sessionId st)) = None \<or>
           (\<exists>h. localStorage st (history_key (sessionId st)) = Some h \<and> JSON_parse P h = None)"
  shows "loadChatHistory P st =
           (if localStorage st (history_key (sessionId st)) = None \<or>
               localStorage st (history_key (sessionId st)) = Some []
            then st
            else st\<lparr>console := console st @ [console_error ''Failed to load chat history:'']\<rparr>) \<and>
         (loadChatHistory P st = st \<or>
          loadChatHistory P st =
            st\<lparr>console := console st @ [console_error ''Failed to load chat history:'']\<rparr>) \<and>
         chatMessages (loadChatHistory P st) = chatMessages st \<and>
         uncaught (loadChatHistory P st) = uncaught st \<and>
         errorToast_display (loadChatHistory P st) = errorToast_display st \<and>
         successToast_display (loadChatHistory P st) = successToast_display st \<and>
         errorMessage (loadChatHistory P st) = errorMessage st \<and>
         timers (loadChatHistory P st) = timers st"
  using assms by (auto simp add: loadChatHistory_def load_failed_def)

lemma parse_malformed: "parse ''{\"sender\": oops'' = None"
  by code_simp

theorem loadChatHistory_absent_or_malformed_witness:
  "console (loadChatHistory browser
     (blank_page\<lparr>localStorage := [history_key [] \<mapsto> ''{\"sender\": oops'']\<rparr>)) =
     [console_error ''Failed to load chat history:''] \<and>
   chatMessages (loadChatHistory browser
     (blank_page\<lparr>localStorage := [history_key [] \<mapsto> ''{\"sender\": oops'']\<rparr>)) = [] \<and>
   errorToast_display (loadChatHistory browser
     (blank_page\<lparr>localStorage := [history_key [] \<mapsto> ''{\"sender\": oops'']\<rparr>)) = [] \<and>
   loadChatHistory browser blank_page = blank_page"
proof -
  let ?st = "blank_page\<lparr>localStorage := [history_key [] \<mapsto> ''{\"sender\": oops'']\<rparr>"
  have slot: "localStorage ?st (history_key (sessionId ?st)) = Some ''{\"sender\": oops''"
    by (simp add: blank_page_def)
  have "JSON_parse browser ''{\"sender\": oops'' = None"
    by (simp add: browser_def parse_malformed)
  with slot have h: "localStorage ?st (history_key (sessionId ?st)) = None \<or>
           (\<exists>h. localStorage ?st (history_key (sessionId ?st)) = Some h \<and> JSON_parse browser h = None)"
    by blast
  have absent: "localStorage blank_page (history_key (sessionId blank_page)) = None"
    by (simp add: blank_page_def)
  then have a: "localStorage blank_page (history_key (sessionId blank_page)) = None \<or>
           (\<exists>h. localStorage blank_page (history_key (sessionId blank_page)) = Some h \<and>
                JSON_parse browser h = None)"
    by blast
  from loadChatHistory_absent_or_malformed [OF h]
  have "loadChatHistory browser ?st =
          (if localStorage ?st (history_key (sessionId ?st)) = None \<or>
              localStorage ?st (history_key (sessionId ?st)) = Some []
           then ?st
           else ?st\<lparr>console := console ?st @ [console_error ''Failed to load chat history:'']\<rparr>)"
    and c: "chatMessages (loadChatHistory browser ?st) = chatMessages ?st"
    and e: "errorToast_display (loadChatHistory browser ?st) = errorToast_display ?st"
    by blast+
  then have "loadChatHistory browser ?st =
               ?st\<lparr>console := console ?st @ [console_error ''Failed to load chat history:'']\<rparr>"
    by (simp only: slot) simp
  then have l: "console (loadChatHistory browser ?st) = [console_error ''Failed to load chat history:'']"
    by (simp add: blank_page_def)
  from loadChatHistory_absent_or_malformed [OF a]
  have "loadChatHistory browser blank_page =
          (if localStorage blank_page (history_key (sessionId blank_page)) = None \<or>
              localStorage blank_page (history_key (sessionId blank_page)) = Some []
           then blank_page
           else blank_page\<lparr>console := console blank_page @
                                [console_error ''Failed to load chat history:'']\<rparr>)"
    by blast
  then have "loadChatHistory browser blank_page = blank_page"
    by (simp only: absent) simp
  with l c e show ?thesis
    by (simp add: blank_page_def)
qed

subsection \<open>Clearing\<close>

lemma has_class_remove_all [simp]: "has_class cl (remove_all cl n) = has_class cl n"
  by (cases n) simp_all

lemma elements_remove_all:
  "filter (has_class cl) (elements (remove_all cl n)) =
     (if has_class cl n then [remove_all cl n] else [])"
proof (induction cl n rule: remove_all.induct)
  case (1 cl s)
  then show ?case by simp
next
  case (2 cl cn ks)
  have "filter (has_class cl) (concat (map elements
          (map (remove_all cl) (filter (\<lambda>k. \<not> has_class cl k) ks)))) = []"
    using 2 by (induction ks) auto
  then show ?case by simp
qed

lemma querySelectorAll_remove_matching: "querySelectorAll cl (remove_matching cl ks) = []"
  unfolding querySelectorAll_def remove_matching_def
  by (induction ks) (simp_all add: elements_remove_all)

text \<open>
  C6. Once the user has confirmed, \<^verbatim>\<open>clearChat\<close> deletes the slot of the session (and
  removes every message from the chat). A load that follows finds no history: on the
  same page it changes nothing, and on any page opened for the same session with the
  store as the clearing left it, it renders nothing.
\<close>

theorem clearChat_deletes_slot:
  "localStorage (clearChat True st) (history_key (sessionId st)) = None \<and>
   querySelectorAll ''message'' (chatMessages (clearChat True st)) = [] \<and>
   loadChatHistory P (clearChat True st) = clearChat True st \<and>
   loadChatHistory P (page\<lparr>sessionId := sessionId st, localStorage := localStorage (clearChat True st)\<rparr>) =
     page\<lparr>sessionId := sessionId st, localStorage := localStorage (clearChat True st)\<rparr> \<and>
   chatMessages (loadChatHistory P
     (page\<lparr>sessionId := sessionId st, localStorage := localStorage (clearChat True st)\<rparr>)) =
     chatMessages page"
  by (simp add: clearChat_def toast_defs loadChatHistory_def querySelectorAll_remove_matching)

subsection \<open>The JSON codec of the browser\<close>


lemma digit_char_table:
  "\<forall>d\<in>set [0..<10]. is_digit (digit_char d) \<and> (of_char (digit_char d) :: nat) = 48 + d"
  by code_simp

lemma digit_char_props:
  assumes "d < 10"
  shows "is_digit (digit_char d)" and "(of_char (digit_char d) :: nat) = 48 + d"
  using assms digit_char_table by auto

lemma digits_all: "list_all is_digit (digits n)"
proof (induction n rule: digits.induct)
  case (1 n)
  show ?case
  proof (cases "n < 10")
    case True
    then show ?thesis by (simp add: digits.simps [of n] digit_char_props)
  next
    case False
    then show ?thesis
      using 1 by (simp add: digits.simps [of n] digit_char_props)
  qed
qed

lemma digits_nonempty: "digits n \<noteq> []"
  by (simp add: digits.simps [of n])

lemma nat_of_digits_snoc:
  "nat_of_digits (ds @ [c]) = 10 * nat_of_digits ds + (of_char c - 48)"
  by (simp add: nat_of_digits_def)

lemma nat_of_digits_digits: "nat_of_digits (digits n) = n"
proof (induction n rule: digits.induct)
  case (1 n)
  show ?case
  proof (cases "n < 10")
    case True
    then show ?thesis
      by (simp add: digits.simps [of n] nat_of_digits_def digit_char_props)
  next
    case False
    then have "nat_of_digits (digits (n div 10)) = n div 10"
      using 1 by simp
    then show ?thesis
      using False by (simp add: digits.simps [of n] nat_of_digits_snoc digit_char_props)
  qed
qed

lemma digit_char_zero_table: "\<forall>d\<in>set [0..<10]. (digit_char d = CHR ''0'') = (d = 0)"
  by code_simp

lemma digit_char_zero: "d < 10 \<Longrightarrow> digit_char d = CHR ''0'' \<longleftrightarrow> d = 0"
  using digit_char_zero_table by auto

lemma hd_digits_zero: "hd (digits n) = CHR ''0'' \<longleftrightarrow> n = 0"
proof (induction n rule: digits.induct)
  case (1 n)
  show ?case
  proof (cases "n < 10")
    case True
    then show ?thesis by (simp add: digits.simps [of n] digit_char_zero)
  next
    case False
    then have "hd (digits n) = hd (digits (n div 10))"
      by (simp add: digits.simps [of n] digits_nonempty)
    then show ?thesis using 1 False by simp
  qed
qed


lemma takeWhile_prefix:
  "list_all Q xs \<Longrightarrow> rest = [] \<or> \<not> Q (hd rest) \<Longrightarrow> takeWhile Q (xs @ rest) = xs"
  by (induction xs) (auto simp add: takeWhile_eq_Nil_iff)

lemma dropWhile_prefix:
  "list_all Q xs \<Longrightarrow> rest = [] \<or> \<not> Q (hd rest) \<Longrightarrow> dropWhile Q (xs @ rest) = rest"
  by (induction xs) (auto simp add: dropWhile_eq_self_iff)

lemma ends_number_D:
  assumes "ends_number rest"
  shows "rest = [] \<or> \<not> is_digit (hd rest)"
    and "rest \<noteq> [] \<Longrightarrow> hd rest \<noteq> CHR ''.'' \<and> hd rest \<noteq> CHR ''e'' \<and> hd rest \<noteq> CHR ''E''"
  using assms by (auto simp add: ends_number_def is_digit_def)

lemma parse_nat_digits:
  assumes "ends_number rest"
  shows "parse_nat (digits n @ rest) = Some (n, rest)"
proof -
  have t: "takeWhile is_digit (digits n @ rest) = digits n"
    and d: "dropWhile is_digit (digits n @ rest) = rest"
    using ends_number_D(1) [OF assms] by (simp_all add: takeWhile_prefix dropWhile_prefix digits_all)
  have z: "\<not> (hd (digits n) = CHR ''0'' \<and> length (digits n) > 1)"
    by (auto simp add: hd_digits_zero digits.simps [of 0])
  show ?thesis
    using ends_number_D(2) [OF assms] z
    by (auto simp add: parse_nat_def t d Let_def digits_nonempty nat_of_digits_digits)
qed

lemma digits_not_minus: "\<not> starts_with ''-'' (digits n @ rest)"
proof -
  obtain c cs where e: "digits n = c # cs"
    using digits_nonempty [of n] by (cases "digits n") auto
  with digits_all [of n] have "is_digit c" by simp
  then have "c \<noteq> CHR ''-''" by (auto simp add: is_digit_def)
  then show ?thesis by (simp add: starts_with_def e)
qed

lemma parse_number_toString:
  assumes "ends_number rest"
  shows "parse_number (Number_toString i @ rest) = Some (JNum i, rest)"
proof (cases "i < 0")
  case True
  then show ?thesis
    by (simp add: parse_number_def Number_toString_def starts_with_def parse_nat_digits [OF assms])
next
  case False
  then show ?thesis
    by (simp add: parse_number_def Number_toString_def digits_not_minus parse_nat_digits [OF assms])
qed


lemma hex_table: "\<forall>d\<in>set [0..<16]. hex_val (hex_char d) = Some d"
  by code_simp

lemma hex_val_hex_char: "d < 16 \<Longrightarrow> hex_val (hex_char d) = Some d"
  using hex_table by auto

lemma code_unit_escape:
  "code_unit CHR ''0'' CHR ''0'' (hex_char (of_char c div 16)) (hex_char (of_char c mod 16)) = Some c"
proof -
  have "(of_char c :: nat) < 256" by simp
  then have "(of_char c :: nat) div 16 < 16"
    by (simp add: less_mult_imp_div_less)
  then have a: "hex_val (hex_char (of_char c div 16)) = Some (of_char c div 16)"
    by (rule hex_val_hex_char)
  have b: "hex_val (hex_char (of_char c mod 16)) = Some (of_char c mod 16)"
    by (rule hex_val_hex_char) simp
  have z: "hex_val CHR ''0'' = Some 0"
    by (simp add: hex_val_def)
  show ?thesis
    by (simp add: code_unit_def a b z)
qed

lemma parse_string_escape_char:
  "parse_string (escape_char c @ s) = cons_char c (parse_string s)"
proof -
  consider "c = CHR 0x22" | "c = CHR 0x5C" | "c = CHR 0x08" | "c = CHR 0x0C" | "c = CHR 0x0A"
    | "c = CHR 0x0D" | "c = CHR 0x09"
    | "c \<notin> {CHR 0x22, CHR 0x5C, CHR 0x08, CHR 0x0C, CHR 0x0A, CHR 0x0D, CHR 0x09}"
      "of_char c < (32::nat)"
    | "c \<notin> {CHR 0x22, CHR 0x5C, CHR 0x08, CHR 0x0C, CHR 0x0A, CHR 0x0D, CHR 0x09}"
      "\<not> of_char c < (32::nat)"
    by blast
  then show ?thesis
  proof cases
    case 8
    then show ?thesis
      by (simp add: escape_char_def code_unit_escape)
  next
    case 9
    then show ?thesis
      by (simp add: escape_char_def)
  qed (simp_all add: escape_char_def unescape_def)
qed

lemma parse_string_escaped:
  "parse_string (concat (map escape_char s) @ CHR 0x22 # rest) = Some (s, rest)"
  by (induction s) (simp_all add: parse_string_escape_char cons_char_def)

lemma parse_string_quote: "parse_string (drop 1 (quote s @ rest)) = Some (s, rest)"
  by (simp add: quote_def parse_string_escaped)


lemma Number_toString_hd:
  "\<exists>c cs. Number_toString i = c # cs \<and> (is_digit c \<or> c = CHR ''-'')"
proof (cases "i < 0")
  case True
  then show ?thesis by (simp add: Number_toString_def)
next
  case False
  obtain c cs where e: "digits (nat i) = c # cs"
    using digits_nonempty [of "nat i"] by (cases "digits (nat i)") auto
  with digits_all [of "nat i"] have "is_digit c" by simp
  with False e show ?thesis by (simp add: Number_toString_def)
qed

lemma parse_value_number:
  assumes "ends_number rest"
  shows "parse_value (Suc n) (Number_toString i @ rest) = Some (JNum i, rest)"
proof -
  obtain c cs where e: "Number_toString i = c # cs" and c: "is_digit c \<or> c = CHR ''-''"
    using Number_toString_hd by blast
  from c have "\<not> is_json_space c" "c \<noteq> CHR ''n''" "c \<noteq> CHR ''t''" "c \<noteq> CHR ''f''"
    "c \<noteq> CHR 0x22" "c \<noteq> CHR ''[''" "c \<noteq> CHR ''{''"
    by (auto simp add: is_digit_def is_json_space_def)
  then have "parse_value (Suc n) (c # cs @ rest) = parse_number (c # cs @ rest)"
    by (simp add: skip_ws_def starts_with_def)
  then show ?thesis
    using parse_number_toString [OF assms, of i] by (simp add: e)
qed

lemma parse_value_string:
  "parse_value (Suc n) (quote s @ rest) = Some (JStr s, rest)"
  by (simp add: quote_def skip_ws_def is_json_space_def starts_with_def parse_string_escaped)

lemma stringify_call_entry:
  "stringify (call_entry t c) =
     ''{'' @ quote ''sender'' @ '':'' @ quote (fst (snd c)) @ '','' @
     quote ''content'' @ '':'' @ quote (bubble_text c) @ '','' @
     quote ''timestamp'' @ '':'' @ Number_toString t @ ''}''"
  by (simp add: call_entry_def join_def)


lemma parse_members_more:
  assumes "parse_value n (V @ CHR '','' # ms) = Some (v, CHR '','' # ms)"
  shows "parse_members (Suc n) acc (quote k @ CHR '':'' # V @ CHR '','' # ms) =
         parse_members n (put k v acc) ms"
  using assms
  by (simp add: quote_def skip_ws_def is_json_space_def starts_with_def parse_string_escaped)

lemma parse_members_last:
  assumes "parse_value n (V @ CHR ''}'' # rest) = Some (v, CHR ''}'' # rest)"
  shows "parse_members (Suc n) acc (quote k @ CHR '':'' # V @ CHR ''}'' # rest) =
         Some (put k v acc, rest)"
  using assms
  by (simp add: quote_def skip_ws_def is_json_space_def starts_with_def parse_string_escaped)

lemma parse_value_call_entry:
  "parse_value (Suc (Suc (Suc (Suc (Suc n))))) (stringify (call_entry t c) @ rest) =
     Some (call_entry t c, rest)"
proof -
  let ?a = "fst (snd c)" and ?b = "bubble_text c"
  let ?M3 = "quote ''timestamp'' @ CHR '':'' # Number_toString t @ CHR ''}'' # rest"
  let ?M2 = "quote ''content'' @ CHR '':'' # quote ?b @ CHR '','' # ?M3"
  let ?M1 = "quote ''sender'' @ CHR '':'' # quote ?a @ CHR '','' # ?M2"
  have e: "ends_number (CHR ''}'' # rest)"
    by (simp add: ends_number_def)
  have m3: "parse_members (Suc (Suc n)) acc ?M3 = Some (put ''timestamp'' (JNum t) acc, rest)" for acc
    by (rule parse_members_last) (rule parse_value_number [OF e])
  have m2: "parse_members (Suc (Suc (Suc n))) acc ?M2 =
              parse_members (Suc (Suc n)) (put ''content'' (JStr ?b) acc) ?M3" for acc
    by (rule parse_members_more) (rule parse_value_string)
  have m1: "parse_members (Suc (Suc (Suc (Suc n)))) [] ?M1 =
              parse_members (Suc (Suc (Suc n))) (put ''sender'' (JStr ?a) []) ?M2"
    by (rule parse_members_more) (rule parse_value_string)
  have members: "parse_members (Suc (Suc (Suc (Suc n)))) [] ?M1 =
      Some ([(''sender'', JStr ?a), (''content'', JStr ?b), (''timestamp'', JNum t)], rest)"
    by (simp only: m1 m2 m3) simp
  have shape: "stringify (call_entry t c) @ rest = CHR ''{'' # ?M1"
    by (simp add: stringify_call_entry)
  have open_brace: "parse_value (Suc (Suc (Suc (Suc (Suc n))))) (CHR ''{'' # ?M1) =
      map_option (\<lambda>(kvs, rest). (JObj kvs, rest)) (parse_members (Suc (Suc (Suc (Suc n)))) [] ?M1)"
    by (simp add: skip_ws_def is_json_space_def starts_with_def quote_def)
  show ?thesis
    by (simp only: shape open_brace members) (simp add: call_entry_def)
qed


lemma parse_value_call_entry_fuel:
  assumes "5 \<le> m"
  shows "parse_value m (stringify (call_entry t c) @ rest) = Some (call_entry t c, rest)"
proof -
  from assms have "m = Suc (Suc (Suc (Suc (Suc (m - 5)))))" by simp
  then show ?thesis
    using parse_value_call_entry [of "m - 5" t c rest] by simp
qed

lemma join_single [simp]: "join sep [x] = x"
  by (simp add: join_def)

lemma join_Cons2 [simp]: "join sep (x # y # ys) = x @ sep @ join sep (y # ys)"
  by (simp add: join_def)

lemma parse_elements_entries:
  assumes "calls \<noteq> []" and "length calls + 5 \<le> m"
  shows "parse_elements m
           (join '','' (map (\<lambda>c. stringify (call_entry t c)) calls) @ CHR '']'' # rest) =
         Some (map (call_entry t) calls, rest)"
  using assms
proof (induction calls arbitrary: m)
  case Nil
  then show ?case by simp
next
  case (Cons c calls)
  from Cons.prems obtain k where m: "m = Suc k" and k: "length calls + 5 \<le> k"
    by (cases m) auto
  then have k5: "5 \<le> k" by simp
  show ?case
  proof (cases calls)
    case Nil
    then show ?thesis
      using parse_value_call_entry_fuel [OF k5, of t c "CHR '']'' # rest"]
      by (simp add: m skip_ws_def is_json_space_def starts_with_def)
  next
    case (Cons c' cs)
    then have ne: "calls \<noteq> []" by simp
    let ?tail = "join '','' (map (\<lambda>c. stringify (call_entry t c)) calls) @ CHR '']'' # rest"
    have v: "parse_value k (stringify (call_entry t c) @ CHR '','' # ?tail) =
               Some (call_entry t c, CHR '','' # ?tail)"
      by (rule parse_value_call_entry_fuel [OF k5])
    have "parse_elements (Suc k) (stringify (call_entry t c) @ CHR '','' # ?tail) =
            map_option (\<lambda>(vs, rest'). (call_entry t c # vs, rest')) (parse_elements k ?tail)"
      by (simp add: v skip_ws_def is_json_space_def starts_with_def)
    then show ?thesis
      using Cons.IH [OF ne k] by (simp add: m Cons)
  qed
qed

lemma length_stringify_call_entry: "6 \<le> length (stringify (call_entry t c))"
  by (simp add: stringify_call_entry quote_def)

lemma length_join:
  "\<forall>x\<in>set xs. 6 \<le> length x \<Longrightarrow> 6 * length xs \<le> length (join sep xs)"
proof (induction xs)
  case Nil
  then show ?case by simp
next
  case (Cons x xs)
  then show ?case by (cases xs) auto
qed

lemma stringify_call_entry_hd: "\<exists>cs. stringify (call_entry t c) = CHR ''{'' # cs"
  by (simp add: stringify_call_entry)

text \<open>
  The codec of the browser gives back every array that \<^verbatim>\<open>saveChatHistory\<close> writes.
\<close>

lemma browser_parse_stringify:
  "stringify (saved_json t calls) \<noteq> [] \<and>
   parse (stringify (saved_json t calls)) = Some (saved_json t calls)"
proof (cases calls)
  case Nil
  have "parse ''[]'' = Some (JArr [])"
    by code_simp
  then show ?thesis
    by (simp add: Nil saved_json_def join_def)
next
  case (Cons c cs)
  let ?body = "join '','' (map (\<lambda>c. stringify (call_entry t c)) calls)"
  let ?s = "CHR ''['' # ?body @ '']''"
  have s: "stringify (saved_json t calls) = ?s"
    by (simp add: saved_json_def comp_def)
  define f where "f = length ?s"
  have "6 * length calls \<le> length ?body"
    using length_join [of "map (\<lambda>c. stringify (call_entry t c)) calls" "'',''"]
    by (simp add: length_stringify_call_entry)
  then have fuel: "length calls + 5 \<le> f"
    using Cons by (simp add: f_def)
  have ne: "calls \<noteq> []"
    using Cons by simp
  obtain b where b: "?body = CHR ''{'' # b"
    using stringify_call_entry_hd [of t c] by (cases cs) (auto simp add: Cons)
  have elems: "parse_elements f (?body @ '']'') = Some (map (call_entry t) calls, [])"
    using parse_elements_entries [OF ne fuel, of t "[]"] by simp
  have "parse_value (Suc f) (CHR ''['' # (CHR ''{'' # b) @ '']'') =
          map_option (\<lambda>(vs, rest). (JArr vs, rest)) (parse_elements f ((CHR ''{'' # b) @ '']''))"
    by (simp add: skip_ws_def is_json_space_def starts_with_def)
  then have "parse_value (Suc f) ?s = Some (JArr (map (call_entry t) calls), [])"
    using elems by (simp only: b) simp
  then have "parse ?s = Some (JArr (map (call_entry t) calls))"
    unfolding parse_def f_def [symmetric] by (simp add: skip_ws_def)
  then show ?thesis
    by (simp add: s) (simp add: saved_json_def)
qed

lemma browser_roundtrips: "json_roundtrips browser (saved_json t calls)"
  using browser_parse_stringify [of t calls] by (simp add: json_roundtrips_def browser_def)

subsection \<open>Saving and loading\<close>

lemma querySelectorAll_append:
  "querySelectorAll cl (ks @ ks') = querySelectorAll cl ks @ querySelectorAll cl ks'"
  by (simp add: querySelectorAll_def)

lemma querySelectorAll_Cons:
  "querySelectorAll cl (k # ks) = querySelectorAll cl [k] @ querySelectorAll cl ks"
  by (simp add: querySelectorAll_def)

lemma classList_literals:
  "classList ''message user'' = [''message'', ''user'']"
  "classList ''message bot'' = [''message'', ''bot'']"
  "classList ''user-avatar'' = [''user-avatar'']"
  "classList ''bot-avatar'' = [''bot-avatar'']"
  "classList ''fas fa-user'' = [''fas'', ''fa-user'']"
  "classList ''fas fa-robot'' = [''fas'', ''fa-robot'']"
  "classList ''message-bubble'' = [''message-bubble'']"
  "classList ''message-metadata'' = [''message-metadata'']"
  "classList [] = []"
  by (simp_all add: classList_def is_html_space_def)

lemma elements_text_nodes [simp]: "concat (map elements (text_nodes s)) = []"
  by (simp add: text_nodes_def)

lemma textContent_text_nodes [simp]: "concat (map textContent (text_nodes s)) = s"
  by (simp add: text_nodes_def)

text \<open>
  The element that \<^verbatim>\<open>addMessage\<close> builds for a user or a bot: it is the one message
  element of its subtree, and \<^verbatim>\<open>saveChatHistory\<close> reads its sender and the text of its
  bubble back.
\<close>

lemma querySelectorAll_call_div:
  assumes "fst (snd c) = ''user'' \<or> fst (snd c) = ''bot''"
  shows "querySelectorAll ''message'' [call_div c] = [call_div c]"
  using assms
  by (auto simp add: call_div_def messageDiv_def querySelectorAll_def classList_literals
      metaDiv_def ToString_opt_def)

lemma sender_content_call_div:
  assumes "fst (snd c) = ''user'' \<or> fst (snd c) = ''bot''"
  shows "sender_content (call_div c) = Some (fst (snd c), bubble_text c)"
  using assms
  by (auto simp add: sender_content_def call_div_def messageDiv_def querySelectorAll_def
      classList_literals metaDiv_def ToString_opt_def DOMString_of_def bubble_text_def)

lemma message_entry_call_div:
  assumes "fst (snd c) = ''user'' \<or> fst (snd c) = ''bot''"
  shows "message_entry t (call_div c) = Some (call_entry t c)"
  using assms
  by (auto simp add: message_entry_def call_div_def messageDiv_def querySelectorAll_def
      classList_literals metaDiv_def ToString_opt_def DOMString_of_def bubble_text_def
      call_entry_def)

lemma add_call_fields [simp]:
  "chatMessages (add_call P st c) = chatMessages st @ [call_div c]"
  "sessionId (add_call P st c) = sessionId st"
  "now (add_call P st c) = now st"
  by (simp_all add: add_call_def call_div_def)

lemma foldl_add_call_fields [simp]:
  "chatMessages (foldl (add_call P) st calls) = chatMessages st @ map call_div calls"
  "sessionId (foldl (add_call P) st calls) = sessionId st"
  "now (foldl (add_call P) st calls) = now st"
  by (induction calls arbitrary: st; simp)+

lemma querySelectorAll_call_divs:
  "\<forall>c\<in>set calls. fst (snd c) = ''user'' \<or> fst (snd c) = ''bot'' \<Longrightarrow>
   querySelectorAll ''message'' (map call_div calls) = map call_div calls"
proof (induction calls)
  case Nil
  then show ?case by (simp add: querySelectorAll_def)
next
  case (Cons c calls)
  then show ?case
    using querySelectorAll_Cons [of "''message''" "call_div c" "map call_div calls"]
    by (simp add: querySelectorAll_call_div)
qed

lemma those_map_Some:
  "\<forall>x\<in>set xs. f x = Some (g x) \<Longrightarrow> those (map f xs) = Some (map g xs)"
  by (induction xs) simp_all

lemma save_after_calls:
  assumes senders: "\<forall>c\<in>set calls. fst (snd c) = ''user'' \<or> fst (snd c) = ''bot''"
    and static: "querySelectorAll ''message'' (chatMessages st0) = []"
  shows "localStorage (saveChatHistory P (foldl (add_call P) st0 calls))
           (history_key (sessionId st0)) =
         Some (JSON_stringify P (saved_json (now st0) calls))"
proof -
  let ?st = "foldl (add_call P) st0 calls"
  have q: "querySelectorAll ''message'' (chatMessages ?st) = map call_div calls"
    using static senders by (simp add: querySelectorAll_append querySelectorAll_call_divs)
  have "\<forall>c\<in>set calls. message_entry (now st0) (call_div c) = Some (call_entry (now st0) c)"
    using senders by (simp add: message_entry_call_div)
  then have "those (map (message_entry (now st0)) (map call_div calls)) =
             Some (map (call_entry (now st0)) calls)"
    using those_map_Some [of calls "\<lambda>c. message_entry (now st0) (call_div c)" "call_entry (now st0)"]
    by (simp add: comp_def)
  then show ?thesis
    using q by (simp add: saveChatHistory_def saved_json_def)
qed

lemma displayed_call_divs:
  assumes senders: "\<forall>c\<in>set calls. fst (snd c) = ''user'' \<or> fst (snd c) = ''bot''"
    and static: "querySelectorAll ''message'' ks = []"
  shows "map sender_content (querySelectorAll ''message'' (ks @ map call_div calls)) =
         map (\<lambda>c. Some (fst (snd c), bubble_text c)) calls"
  using assms
  by (simp add: querySelectorAll_append querySelectorAll_call_divs sender_content_call_div)

lemma reloaded_simps [simp]:
  "fst (snd (reloaded c)) = fst (snd c)"
  "bubble_text (reloaded c) = bubble_text c"
  by (simp_all add: reloaded_def bubble_text_def no_metadata_def truthy_def)

lemma call_entry_props [simp]:
  "get_prop ''sender'' (call_entry t c) = Some (JStr (fst (snd c)))"
  "get_prop ''content'' (call_entry t c) = Some (JStr (bubble_text c))"
  "call_entry t c \<noteq> JNull"
  by (simp_all add: call_entry_def)

lemma forEach_load_entries:
  assumes "\<forall>c\<in>set calls. fst (snd c) = ''user'' \<or> fst (snd c) = ''bot''"
  shows "chatMessages (forEach_load P (map (call_entry t) calls) st) =
         chatMessages st @ map (\<lambda>c. call_div (reloaded c)) calls"
  using assms
proof (induction calls arbitrary: st)
  case Nil
  then show ?case by simp
next
  case (Cons c calls)
  from Cons.prems have s: "fst (snd c) = ''user'' \<or> fst (snd c) = ''bot''" by simp
  then have w: "fst (snd c) \<noteq> ''welcome''" by auto
  show ?case
    using Cons.prems w by (simp add: Cons.IH call_div_def reloaded_def)
qed

text \<open>
  What save and load do with a chat made by \<^verbatim>\<open>addMessage\<close> calls for the senders
  \<^verbatim>\<open>user\<close> and \<^verbatim>\<open>bot\<close>, on a page that held no message before. The save stores, for
  each call, its sender and the text of its bubble. The load, on a page opened for the
  same session with the store as it was left, adds one message per entry, in order, with
  that text as its content and no metadata. The platform's JSON functions are assumed to
  agree on the array that was saved; those of the browser do (\<open>browser_roundtrips\<close>).
\<close>

lemma save_then_load:
  assumes senders: "\<forall>c\<in>set calls. fst (snd c) = ''user'' \<or> fst (snd c) = ''bot''"
    and static: "querySelectorAll ''message'' (chatMessages st0) = []"
    and fresh: "querySelectorAll ''message'' (chatMessages page) = []"
    and json: "json_roundtrips P (saved_json (now st0) calls)"
    and st1: "st1 = saveChatHistory P (foldl (add_call P) st0 calls)"
    and st2: "st2 = loadChatHistory P
                      (page\<lparr>sessionId := sessionId st1, localStorage := localStorage st1\<rparr>)"
  shows "chatMessages st1 = chatMessages st0 @ map call_div calls"
    and "localStorage st1 (history_key (sessionId st1)) =
           Some (JSON_stringify P (saved_json (now st0) calls))"
    and "chatMessages st2 = chatMessages page @ map (\<lambda>c. call_div (reloaded c)) calls"
    and "displayed st2 = map (\<lambda>c. Some (fst (snd c), bubble_text c)) calls"
proof -
  show "chatMessages st1 = chatMessages st0 @ map call_div calls"
    by (simp add: st1)
  show slot: "localStorage st1 (history_key (sessionId st1)) =
                Some (JSON_stringify P (saved_json (now st0) calls))"
    using save_after_calls [OF senders static, of P] by (simp add: st1)
  let ?page = "page\<lparr>sessionId := sessionId st1, localStorage := localStorage st1\<rparr>"
  have "st2 = forEach_load P (map (call_entry (now st0)) calls) ?page"
    using slot json by (simp add: st2 loadChatHistory_def saved_json_def json_roundtrips_def)
  then show chat: "chatMessages st2 = chatMessages page @ map (\<lambda>c. call_div (reloaded c)) calls"
    using forEach_load_entries [OF senders, of P "now st0" ?page] by simp
  show "displayed st2 = map (\<lambda>c. Some (fst (snd c), bubble_text c)) calls"
    using displayed_call_divs [of "map reloaded calls" "chatMessages page"] senders fresh
    by (simp add: displayed_def comp_def chat)
qed

text \<open>
  Where no call appends a metadata block (user messages, and bot messages without an
  intent), the text of the bubble is the content that was passed, and the load gives the
  calls back as they were made.
\<close>

lemma save_then_load_without_metadata:
  assumes senders: "\<forall>c\<in>set calls. fst (snd c) = ''user'' \<or> fst (snd c) = ''bot''"
    and plain: "\<forall>c\<in>set calls. \<not> (fst (snd c) = ''bot'' \<and> truthy (intent (snd (snd c))))"
    and static: "querySelectorAll ''message'' (chatMessages st0) = []"
    and fresh: "querySelectorAll ''message'' (chatMessages page) = []"
    and json: "json_roundtrips P (saved_json (now st0) calls)"
    and st1: "st1 = saveChatHistory P (foldl (add_call P) st0 calls)"
    and st2: "st2 = loadChatHistory P
                      (page\<lparr>sessionId := sessionId st1, localStorage := localStorage st1\<rparr>)"
  shows "displayed st2 = map (\<lambda>c. Some (fst (snd c), fst c)) calls"
proof -
  have "map (\<lambda>c. Some (fst (snd c), bubble_text c)) calls =
        map (\<lambda>c. Some (fst (snd c), fst c)) calls"
    using plain by (auto simp add: bubble_text_def)
  then show ?thesis
    using save_then_load(4) [OF senders static fresh json st1 st2] by simp
qed

lemma merged_neq: "merged \<noteq> ''Hi there''"
  by (simp add: merged_def nl_def)

text \<open>
  C1 fails on the code for a bot response that carries an intent, the call that
  \<^verbatim>\<open>handleBotResponse\<close> makes. \<^verbatim>\<open>addMessage\<close> appends the metadata block inside the
  bubble, and \<^verbatim>\<open>saveChatHistory\<close> stores the \<^verbatim>\<open>textContent\<close> of the whole bubble as
  the content. In the example session the calls are
  \<^verbatim>\<open>addMessage('hello', 'user')\<close> and
  \<^verbatim>\<open>addMessage('Hi there', 'bot', {intent: 'greeting', confidence: 0.95})\<close>. The chat
  shows the elements of these calls; the slot of the session then holds \<open>merged\<close>, the
  content followed by the text of the metadata block, as the content of the second
  entry; and the load adds the bot message with \<open>merged\<close> as its content. So the list of
  sender and content pairs after the reload is not the list of the calls. (The metadata
  of the example is plain text, where the model of the block is exact.)
\<close>

theorem reload_merges_metadata_into_content:
  "list_all (\<lambda>c. plain_metadata (snd (snd c))) example_calls \<and>
   chatMessages example_chat =
     [messageDiv (Some (JStr ''hello'')) (Some (JStr ''user'')) no_metadata,
      messageDiv (Some (JStr ''Hi there'')) (Some (JStr ''bot''))
        \<lparr>intent = Some ''greeting'', confidence_pct = ''95''\<rparr>] \<and>
   localStorage example_chat ''chat_history_s1'' =
     Some (stringify (JArr
       [JObj [(''sender'', JStr ''user''), (''content'', JStr ''hello''),
              (''timestamp'', JNum 1700000000000)],
        JObj [(''sender'', JStr ''bot''), (''content'', JStr merged),
              (''timestamp'', JNum 1700000000000)]])) \<and>
   chatMessages example_reload =
     [messageDiv (Some (JStr ''hello'')) (Some (JStr ''user'')) no_metadata,
      messageDiv (Some (JStr merged)) (Some (JStr ''bot'')) no_metadata] \<and>
   displayed example_reload = [Some (''user'', ''hello''), Some (''bot'', merged)] \<and>
   displayed example_reload \<noteq> map (\<lambda>c. Some (fst (snd c), fst c)) example_calls \<and>
   merged \<noteq> ''Hi there''"
proof -
  let ?st0 = "blank_page\<lparr>sessionId := ''s1''\<rparr>"
  let ?page = "blank_page\<lparr>now := 2000\<rparr>"
  have senders: "\<forall>c\<in>set example_calls. fst (snd c) = ''user'' \<or> fst (snd c) = ''bot''"
    by (simp add: example_calls_def)
  have static: "querySelectorAll ''message'' (chatMessages ?st0) = []"
    and fresh: "querySelectorAll ''message'' (chatMessages ?page) = []"
    by (simp_all add: blank_page_def querySelectorAll_def)
  have json: "json_roundtrips browser (saved_json (now ?st0) example_calls)"
    by (rule browser_roundtrips)
  have st2: "example_reload = loadChatHistory browser
               (?page\<lparr>sessionId := sessionId example_chat, localStorage := localStorage example_chat\<rparr>)"
    by (simp add: example_reload_def)
  note facts = save_then_load [OF senders static fresh json example_chat_def st2]
  have texts: "map bubble_text example_calls = [''hello'', merged]"
    by (simp add: example_calls_def bubble_text_def no_metadata_def truthy_def metaDiv_def
        ToString_opt_def merged_def)
  have sid: "sessionId example_chat = ''s1''"
    by (simp add: example_chat_def)
  have p: "list_all (\<lambda>c. plain_metadata (snd (snd c))) example_calls"
    by (simp add: example_calls_def plain_metadata_def plain_text_def no_metadata_def)
  have a: "chatMessages example_chat =
     [messageDiv (Some (JStr ''hello'')) (Some (JStr ''user'')) no_metadata,
      messageDiv (Some (JStr ''Hi there'')) (Some (JStr ''bot''))
        \<lparr>intent = Some ''greeting'', confidence_pct = ''95''\<rparr>]"
    using facts(1) by (simp add: blank_page_def example_calls_def call_div_def)
  have b: "localStorage example_chat ''chat_history_s1'' =
     Some (stringify (JArr
       [JObj [(''sender'', JStr ''user''), (''content'', JStr ''hello''),
              (''timestamp'', JNum 1700000000000)],
        JObj [(''sender'', JStr ''bot''), (''content'', JStr merged),
              (''timestamp'', JNum 1700000000000)]]))"
    using facts(2) texts
    by (simp add: sid history_key_def browser_def saved_json_def call_entry_def
        example_calls_def blank_page_def)
  have c: "chatMessages example_reload =
     [messageDiv (Some (JStr ''hello'')) (Some (JStr ''user'')) no_metadata,
      messageDiv (Some (JStr merged)) (Some (JStr ''bot'')) no_metadata]"
    using facts(3) texts
    by (simp add: blank_page_def example_calls_def call_div_def reloaded_def)
  have d: "displayed example_reload = [Some (''user'', ''hello''), Some (''bot'', merged)]"
    using facts(4) texts by (simp add: example_calls_def)
  have e: "displayed example_reload \<noteq> map (\<lambda>c. Some (fst (snd c), fst c)) example_calls"
    using merged_neq by (simp add: d example_calls_def)
  from p a b c d e merged_neq show ?thesis
    by blast
qed

section \<open>Analytics\<close>

text \<open>
  C7. For an analytics response whose \<^verbatim>\<open>intent_distribution\<close> is
  \<^verbatim>\<open>{"greeting": 3, "task_query": 1}\<close>, whatever its other fields, \<^verbatim>\<open>renderAnalytics\<close>
  produces exactly two intent rows, the first with the count 3 and the second with the
  count 1, in the order of the entries, and puts them in this order into the list of the
  panel. (The name of the second row is shown as \<^verbatim>\<open>task query\<close>.)
\<close>

theorem renderAnalytics_intent_rows:
  "intent_rows (data\<lparr>intent_distribution := Some [(''greeting'', 3), (''task_query'', 1)]\<rparr>) =
     [nl @ spaces 16 @ ''<li class=\"intent-item\">'' @
      nl @ spaces 20 @ ''<span class=\"intent-name\">greeting</span>'' @
      nl @ spaces 20 @ ''<span class=\"intent-count\">3</span>'' @
      nl @ spaces 16 @ ''</li>'' @
      nl @ spaces 12,
      nl @ spaces 16 @ ''<li class=\"intent-item\">'' @
      nl @ spaces 20 @ ''<span class=\"intent-name\">task query</span>'' @
      nl @ spaces 20 @ ''<span class=\"intent-count\">1</span>'' @
      nl @ spaces 16 @ ''</li>'' @
      nl @ spaces 12] \<and>
   analyticsContent
     (renderAnalytics (data\<lparr>intent_distribution := Some [(''greeting'', 3), (''task_query'', 1)]\<rparr>) st) =
     nl @ spaces 12 @ ''<div class=\"analytics-grid\">'' @
     analytics_card ''Total Conversations'' (or_zero (total_conversations data)) @
     analytics_card ''Total Messages'' (or_zero (total_messages data)) @
     analytics_card ''Avg Confidence'' (average_confidence_pct data @ ''%'') @
     nl @ spaces 12 @ ''</div>'' @
     nl @ spaces 12 @
     nl @ spaces 12 @
       ''<h3 style=\"margin-bottom: 1rem; color: #1e293b;\">Intent Distribution</h3>'' @
     nl @ spaces 12 @
       ''<ul class=\"intent-list\">'' @
       concat (intent_rows
         (data\<lparr>intent_distribution := Some [(''greeting'', 3), (''task_query'', 1)]\<rparr>)) @
       ''</ul>'' @
     nl @ spaces 8"
  by (simp add: renderAnalytics_def intent_rows_def intent_item_def Number_toString_def
      digits.simps digit_char_def nl_def)

end
